theory Spec2Isabelle
  imports Complex_Main "HOL-Library.AList" "HOL-Library.Sublist" "HOL-Library.List_Lexorder"
    "HOL-Library.Extended_Nat"
begin

section \<open>The tiered memory engine of \<open>advanced_memory/memory_handler.py\<close>\<close>

text \<open>
  The development embeds the class \<open>AdvancedMemory\<close> and proves properties of its
  placement policy, its reorganizer and its six commands.

  Modelling decisions:
  \<^item> A Python \<open>str\<close> is a sequence of Unicode code points, so it is a list of naturals
    (\<open>pystr\<close>); \<open>len\<close> is \<open>length\<close> and counts code points, not bytes.
  \<^item> A Python \<open>dict\<close> keeps insertion order, and the reorganizer iterates over the
    items of a tier, so a tier is an association list with \<open>AList.update\<close> (assignment)
    and \<open>AList.delete\<close> (\<open>pop\<close>, \<open>del\<close>).
  \<^item> \<open>datetime.now().timestamp()\<close> is a parameter \<open>now\<close> of every operation: the clock
    is read once per command, and timestamps are real numbers.
  \<^item> The files under the tier directories mirror the mappings; they are not part of the
    state, and file operations are taken to succeed.
  \<^item> Arguments have the types the methods declare (\<open>str\<close>, \<open>int\<close>, \<open>List[int]\<close>); a field
    of a tool call is absent or holds a value of its declared type.
\<close>

subsection \<open>Strings\<close>

type_synonym pystr = "nat list"

definition ustr :: "string \<Rightarrow> pystr" where
  "ustr s = map of_char s"

text \<open>\<open>sep.join(xs)\<close>\<close>

fun py_join :: "pystr \<Rightarrow> pystr list \<Rightarrow> pystr" where
  "py_join sep [] = []"
| "py_join sep [x] = x"
| "py_join sep (x # y # ys) = x @ sep @ py_join sep (y # ys)"

text \<open>\<open>old in s\<close>: \<open>old\<close> occurs in \<open>s\<close> as a contiguous substring.\<close>

fun py_in :: "pystr \<Rightarrow> pystr \<Rightarrow> bool" where
  "py_in old [] = (old = [])"
| "py_in old (c # cs) = (prefix old (c # cs) \<or> py_in old cs)"

text \<open>
  \<open>s.count(old)\<close>: the number of non-overlapping occurrences, found from the left;
  the empty string occurs \<open>len(s) + 1\<close> times.
\<close>

function py_count :: "pystr \<Rightarrow> pystr \<Rightarrow> nat" where
  "py_count [] old = (if old = [] then 1 else 0)"
| "py_count (c # cs) old =
     (if old = [] then Suc (py_count cs old)
      else if prefix old (c # cs) then Suc (py_count (drop (length old) (c # cs)) old)
      else py_count cs old)"
  by pat_completeness auto
termination
  by (relation "measure (\<lambda>(s, old). length s)") auto

text \<open>
  \<open>s.replace(old, new)\<close>: every non-overlapping occurrence found from the left is
  replaced in one pass; for the empty \<open>old\<close>, \<open>new\<close> is put before every character and
  at the end.
\<close>

function py_replace :: "pystr \<Rightarrow> pystr \<Rightarrow> pystr \<Rightarrow> pystr" where
  "py_replace [] old new = (if old = [] then new else [])"
| "py_replace (c # cs) old new =
     (if old = [] then new @ c # py_replace cs old new
      else if prefix old (c # cs) then new @ py_replace (drop (length old) (c # cs)) old new
      else c # py_replace cs old new)"
  by pat_completeness auto
termination
  by (relation "measure (\<lambda>(s, old, new). length s)") auto

text \<open>
  \<open>s.splitlines()\<close>: the line boundaries of Python are LF, VT, FF, CR, CR LF, FS, GS, RS,
  NEL (U+0085), LS (U+2028) and PS (U+2029); a final boundary opens no empty last line.
\<close>

definition is_linebreak :: "nat \<Rightarrow> bool" where
  "is_linebreak c \<longleftrightarrow> c \<in> {10, 11, 12, 13, 28, 29, 30, 133, 8232, 8233}"

fun splitlines_from :: "pystr \<Rightarrow> pystr \<Rightarrow> pystr list" where
  "splitlines_from cur [] = (if cur = [] then [] else [cur])"
| "splitlines_from cur [c] = (if is_linebreak c then [cur] else [cur @ [c]])"
| "splitlines_from cur (c # d # cs) =
     (if c = 13 \<and> d = 10 then cur # splitlines_from [] cs
      else if is_linebreak c then cur # splitlines_from [] (d # cs)
      else splitlines_from (cur @ [c]) (d # cs))"

definition py_splitlines :: "pystr \<Rightarrow> pystr list" where
  "py_splitlines s = splitlines_from [] s"

text \<open>\<open>xs[start:end]\<close> with Python's treatment of negative and too large bounds.\<close>

definition py_slice :: "'a list \<Rightarrow> int \<Rightarrow> int \<Rightarrow> 'a list" where
  "py_slice xs start end =
     (let n = int (length xs);
          s = (if start < 0 then max 0 (start + n) else min start n);
          e = (if end < 0 then max 0 (end + n) else min end n)
      in if s < e then take (nat (e - s)) (drop (nat s) xs) else [])"

text \<open>\<open>str(n)\<close> for an integer, as the f-strings render it.\<close>

fun str_of_nat :: "nat \<Rightarrow> pystr" where
  "str_of_nat n = (if n < 10 then [48 + n] else str_of_nat (n div 10) @ [48 + n mod 10])"

definition str_of_int :: "int \<Rightarrow> pystr" where
  "str_of_int i = (if i < 0 then 45 # str_of_nat (nat (- i)) else str_of_nat (nat i))"

text \<open>
  The length of \<open>s.encode("utf-8")\<close>, the encoding in which the files are written: one to
  four bytes for each code point.
\<close>

definition utf8_len_cp :: "nat \<Rightarrow> nat" where
  "utf8_len_cp c = (if c < 128 then 1 else if c < 2048 then 2 else if c < 65536 then 3 else 4)"

definition utf8_len :: "pystr \<Rightarrow> nat" where
  "utf8_len s = sum_list (map utf8_len_cp s)"

subsection \<open>Tiers and memory blocks\<close>

datatype tier = Working | Archival | Overflow

definition tier_value :: "tier \<Rightarrow> pystr" where
  "tier_value t = (case t of Working \<Rightarrow> ustr ''working''
                   | Archival \<Rightarrow> ustr ''archival''
                   | Overflow \<Rightarrow> ustr ''overflow'')"

record memory_block =
  content :: pystr
  tier :: tier
  access_count :: nat
  last_access :: real
  importance_score :: real
  created_at :: real
  size_bytes :: nat

definition update_access :: "real \<Rightarrow> memory_block \<Rightarrow> memory_block" where
  "update_access now b = b\<lparr>access_count := access_count b + 1, last_access := now\<rparr>"

definition TIER_LIMITS :: "tier \<Rightarrow> enat" where
  "TIER_LIMITS t = (case t of Working \<Rightarrow> enat 4096 | Archival \<Rightarrow> enat 102400 | Overflow \<Rightarrow> \<infinity>)"

subsection \<open>The engine state\<close>

type_synonym tier_store = "(pystr \<times> memory_block) list"

record engine =
  memory_blocks :: "tier \<Rightarrow> tier_store"
  access_patterns :: "(pystr \<times> real list) list"
  predicted_next :: "pystr set"
  operation_counts :: "pystr \<Rightarrow> nat"
  reorganize_counter :: nat

definition reorganize_threshold :: nat where
  "reorganize_threshold = 10"

text \<open>
  \<open>__init__\<close> on a base directory, given the files found in each tier directory as
  (name, content, ctime, atime); \<open>_load_memories\<close> fills the tiers from them.
\<close>

definition load_block :: "tier \<Rightarrow> pystr \<times> pystr \<times> real \<times> real \<Rightarrow> pystr \<times> memory_block" where
  "load_block t f = (case f of (name, text, ctime, atime) \<Rightarrow>
     (name, \<lparr>content = text, tier = t, access_count = 0, last_access = atime,
             importance_score = 1 / 2, created_at = ctime, size_bytes = length text\<rparr>))"

definition load_memories :: "(tier \<Rightarrow> (pystr \<times> pystr \<times> real \<times> real) list) \<Rightarrow> tier \<Rightarrow> tier_store" where
  "load_memories files t = fold (\<lambda>f al. AList.update (fst (load_block t f)) (snd (load_block t f)) al) (files t) []"

definition init_engine :: "(tier \<Rightarrow> (pystr \<times> pystr \<times> real \<times> real) list) \<Rightarrow> engine" where
  "init_engine files =
     \<lparr>memory_blocks = load_memories files, access_patterns = [], predicted_next = {},
      operation_counts = (\<lambda>_. 0), reorganize_counter = 0\<rparr>"

text \<open>The engine on an empty base directory.\<close>

definition fresh_engine :: engine where
  "fresh_engine = init_engine (\<lambda>_. [])"

subsection \<open>Placement policy\<close>

definition recent_accesses :: "real \<Rightarrow> real list \<Rightarrow> nat" where
  "recent_accesses now ts = length (filter (\<lambda>t. now - t < 300) ts)"

definition working_size :: "engine \<Rightarrow> nat" where
  "working_size st = sum_list (map (\<lambda>kb. size_bytes (snd kb)) (memory_blocks st Working))"

definition determine_tier :: "engine \<Rightarrow> real \<Rightarrow> pystr \<Rightarrow> pystr \<Rightarrow> tier" where
  "determine_tier st now path text =
     (let size = length text in
      if (case map_of (access_patterns st) path of
            None \<Rightarrow> False
          | Some ts \<Rightarrow> recent_accesses now ts > 3)
      then Working
      else if enat size \<le> TIER_LIMITS Working
              \<and> enat (working_size st + size) \<le> TIER_LIMITS Working
      then Working
      else if enat size \<le> TIER_LIMITS Archival then Archival
      else Overflow)"

subsection \<open>Paths and lookup\<close>

definition validate_path :: "pystr \<Rightarrow> pystr" where
  "validate_path path =
     (let p1 = (if prefix (ustr ''/memories'') path then drop 9 path else path);
          p2 = (if prefix (ustr ''/'') p1 then drop 1 p1 else p1)
      in py_replace p2 (ustr ''/'') (ustr ''_''))"

fun first_hit :: "engine \<Rightarrow> pystr \<Rightarrow> tier list \<Rightarrow> (tier \<times> memory_block) option" where
  "first_hit st k [] = None"
| "first_hit st k (t # ts) =
     (case map_of (memory_blocks st t) k of
        Some b \<Rightarrow> Some (t, b)
      | None \<Rightarrow> first_hit st k ts)"

definition find_in_tiers :: "engine \<Rightarrow> pystr \<Rightarrow> (tier \<times> memory_block) option" where
  "find_in_tiers st clean_name =
     (case (if clean_name \<in> predicted_next st
            then first_hit st clean_name [Working, Archival] else None) of
        Some r \<Rightarrow> Some r
      | None \<Rightarrow> first_hit st clean_name [Working, Archival, Overflow])"

definition set_block :: "engine \<Rightarrow> tier \<Rightarrow> pystr \<Rightarrow> memory_block \<Rightarrow> engine" where
  "set_block st t k b =
     st\<lparr>memory_blocks := (memory_blocks st)(t := AList.update k b (memory_blocks st t))\<rparr>"

definition del_block :: "engine \<Rightarrow> tier \<Rightarrow> pystr \<Rightarrow> engine" where
  "del_block st t k =
     st\<lparr>memory_blocks := (memory_blocks st)(t := AList.delete k (memory_blocks st t))\<rparr>"

definition move_between_tiers :: "engine \<Rightarrow> pystr \<Rightarrow> tier \<Rightarrow> tier \<Rightarrow> engine" where
  "move_between_tiers st path from_tier to_tier =
     (case map_of (memory_blocks st from_tier) path of
        None \<Rightarrow> st
      | Some block \<Rightarrow> set_block (del_block st from_tier path) to_tier path (block\<lparr>tier := to_tier\<rparr>))"

subsection \<open>Commands\<close>

definition create :: "engine \<Rightarrow> real \<Rightarrow> pystr \<Rightarrow> pystr \<Rightarrow> pystr \<times> engine" where
  "create st now path file_text =
     (let clean_name = validate_path path;
          t = determine_tier st now clean_name file_text;
          block = \<lparr>content = file_text, tier = t, access_count = 0, last_access = now,
                   importance_score = 1 / 2, created_at = now, size_bytes = length file_text\<rparr>
      in (ustr ''Created file: '' @ path @ ustr '' (tier: '' @ tier_value t @ ustr '')'',
          set_block st t clean_name block))"


text \<open>\<open>self.access_patterns[clean_name].append(now)\<close> on a \<open>defaultdict(list)\<close>.\<close>

definition record_access :: "pystr \<Rightarrow> real \<Rightarrow> (pystr \<times> real list) list \<Rightarrow> (pystr \<times> real list) list" where
  "record_access k now ap =
     AList.update k ((case map_of ap k of None \<Rightarrow> [] | Some ts \<Rightarrow> ts) @ [now]) ap"

definition predict_next_access :: "engine \<Rightarrow> pystr \<Rightarrow> engine" where
  "predict_next_access st current_path =
     st\<lparr>predicted_next :=
        (case map_of (access_patterns st) current_path of
           None \<Rightarrow> {}
         | Some current_times \<Rightarrow>
             if current_times = [] then {}
             else let last_time = last current_times in
               set (map fst (filter
                 (\<lambda>(other_path, times). other_path \<noteq> current_path
                     \<and> list_ex (\<lambda>t. \<bar>t - last_time\<bar> < 10) times)
                 (access_patterns st))))\<rparr>"

datatype exn = ValueError pystr

definition exn_str :: "exn \<Rightarrow> pystr" where
  "exn_str e = (case e of ValueError msg \<Rightarrow> msg)"

definition tier_indicator :: "tier \<Rightarrow> pystr" where
  "tier_indicator t = (case t of Working \<Rightarrow> [128293] | Archival \<Rightarrow> [128218] | Overflow \<Rightarrow> [129482])"

definition listing_items :: "engine \<Rightarrow> pystr list" where
  "listing_items st =
     concat (map (\<lambda>t. map (\<lambda>(name, block).
         tier_indicator t @ ustr '' '' @ name @ ustr '' ('' @ str_of_nat (size_bytes block)
           @ ustr ''B, tier: '' @ tier_value t @ ustr '')'')
       (memory_blocks st t)) [Working, Archival, Overflow])"

text \<open>
  \<open>view\<close> raises \<open>ValueError\<close> when a non-empty \<open>view_range\<close> does not unpack into two
  values; the access has been recorded by then.
\<close>

definition view :: "engine \<Rightarrow> real \<Rightarrow> pystr \<Rightarrow> int list option \<Rightarrow> (exn + pystr) \<times> engine" where
  "view st now path view_range =
     (let clean_name = validate_path path in
      if path = ustr ''/memories'' \<or> path = [] then
        (let items = listing_items st in
         if items = [] then (Inr (ustr ''Directory: /memories'' @ [10] @ ustr ''(empty)''), st)
         else (Inr (ustr ''Directory: /memories'' @ [10] @ py_join [10] (sort items)), st))
      else
        case find_in_tiers st clean_name of
          None \<Rightarrow> (Inr (ustr ''Error: Path does not exist: '' @ path), st)
        | Some (t, block) \<Rightarrow>
            let block' = update_access now block;
                st1 = set_block st t clean_name block';
                st2 = st1\<lparr>access_patterns := record_access clean_name now (access_patterns st1)\<rparr>;
                st3 = predict_next_access st2 clean_name;
                counter = ustr ''view_'' @ tier_value t;
                st4 = st3\<lparr>operation_counts :=
                        (operation_counts st3)(counter := operation_counts st3 counter + 1)\<rparr>;
                text = content block'
            in (case view_range of
                 None \<Rightarrow> (Inr text, st4)
               | Some [] \<Rightarrow> (Inr text, st4)
               | Some [start, end] \<Rightarrow>
                   let lines = py_splitlines text;
                       start' = max 0 (start - 1);
                       end' = min (int (length lines)) end
                   in (Inr (py_join [10] (py_slice lines start' end')), st4)
               | Some [_] \<Rightarrow>
                   (Inl (ValueError (ustr ''not enough values to unpack (expected 2, got 1)'')), st4)
               | Some _ \<Rightarrow>
                   (Inl (ValueError (ustr ''too many values to unpack (expected 2)'')), st4)))"

definition str_replace :: "engine \<Rightarrow> real \<Rightarrow> pystr \<Rightarrow> pystr \<Rightarrow> pystr \<Rightarrow> pystr \<times> engine" where
  "str_replace st now path old_str new_str =
     (let clean_name = validate_path path in
      case find_in_tiers st clean_name of
        None \<Rightarrow> (ustr ''Error: File does not exist: '' @ path, st)
      | Some (t, block) \<Rightarrow>
          if \<not> py_in old_str (content block) then (ustr ''Error: String not found in file'', st)
          else
            let count = py_count (content block) old_str;
                text = py_replace (content block) old_str new_str;
                block' = update_access now (block\<lparr>content := text, size_bytes := length text\<rparr>);
                st1 = set_block st t clean_name block';
                new_tier = determine_tier st1 now clean_name (content block');
                st2 = (if new_tier \<noteq> t then move_between_tiers st1 clean_name t new_tier else st1)
            in (ustr ''Replaced '' @ str_of_nat count @ ustr '' occurrence(s) in '' @ path, st2))"

text \<open>\<open>while len(lines) < insert_line: lines.append("")\<close>\<close>

function pad_lines :: "pystr list \<Rightarrow> nat \<Rightarrow> pystr list" where
  "pad_lines lines n = (if length lines < n then pad_lines (lines @ [[]]) n else lines)"
  by pat_completeness auto
termination
  by (relation "measure (\<lambda>(lines, n). n - length lines)") auto

text \<open>\<open>xs.insert(i, x)\<close> for \<open>i \<ge> 0\<close>: before position \<open>i\<close>, at the end when \<open>i\<close> is too large.\<close>

definition list_insert :: "'a list \<Rightarrow> nat \<Rightarrow> 'a \<Rightarrow> 'a list" where
  "list_insert xs i x = take i xs @ x # drop i xs"

definition insert_cmd :: "engine \<Rightarrow> real \<Rightarrow> pystr \<Rightarrow> int \<Rightarrow> pystr \<Rightarrow> pystr \<times> engine" where
  "insert_cmd st now path insert_line insert_text =
     (let clean_name = validate_path path in
      case find_in_tiers st clean_name of
        None \<Rightarrow>
          if insert_line = 0 then create st now path insert_text
          else (ustr ''Error: Cannot insert at line '' @ str_of_int insert_line
                  @ ustr '' in non-existent file'', st)
      | Some (t, block) \<Rightarrow>
          let lines = py_splitlines (content block) in
          if insert_line < 0 then (ustr ''Error: Line number must be non-negative'', st)
          else
            let lines1 = pad_lines lines (nat insert_line);
                lines2 = list_insert lines1 (nat insert_line) insert_text;
                text = py_join [10] lines2;
                block' = update_access now (block\<lparr>content := text, size_bytes := length text\<rparr>);
                st1 = set_block st t clean_name block';
                new_tier = determine_tier st1 now clean_name (content block');
                st2 = (if new_tier \<noteq> t then move_between_tiers st1 clean_name t new_tier else st1)
            in (ustr ''Inserted text at line '' @ str_of_int insert_line @ ustr '' in '' @ path, st2))"

definition delete_cmd :: "engine \<Rightarrow> pystr \<Rightarrow> pystr \<times> engine" where
  "delete_cmd st path =
     (let clean_name = validate_path path in
      case find_in_tiers st clean_name of
        None \<Rightarrow> (ustr ''Error: Path does not exist: '' @ path, st)
      | Some (t, block) \<Rightarrow>
          let st1 = del_block st t clean_name;
              st2 = st1\<lparr>access_patterns := AList.delete clean_name (access_patterns st1),
                        predicted_next := predicted_next st1 - {clean_name}\<rparr>
          in (ustr ''Deleted file: '' @ path, st2))"

definition rename :: "engine \<Rightarrow> pystr \<Rightarrow> pystr \<Rightarrow> pystr \<times> engine" where
  "rename st old_path new_path =
     (let old_name = validate_path old_path;
          new_name = validate_path new_path in
      case find_in_tiers st old_name of
        None \<Rightarrow> (ustr ''Error: Source path does not exist: '' @ old_path, st)
      | Some (t, block) \<Rightarrow>
          if find_in_tiers st new_name \<noteq> None
          then (ustr ''Error: Destination already exists: '' @ new_path, st)
          else
            let st1 = set_block (del_block st t old_name) t new_name block;
                st2 = (case map_of (access_patterns st1) old_name of
                         None \<Rightarrow> st1
                       | Some ts \<Rightarrow>
                           st1\<lparr>access_patterns :=
                                 AList.update new_name ts
                                   (AList.delete old_name (access_patterns st1))\<rparr>)
            in (ustr ''Renamed '' @ old_path @ ustr '' to '' @ new_path, st2))"

subsection \<open>Reorganizer\<close>

text \<open>
  Each pass iterates over \<open>list(self.memory_blocks[tier].items())\<close>, a snapshot taken
  when the pass starts; the moves act on the current state.
\<close>

fun promote_pass :: "real \<Rightarrow> tier_store \<Rightarrow> engine \<Rightarrow> engine" where
  "promote_pass now [] st = st"
| "promote_pass now ((path, block) # rest) st =
     promote_pass now rest
       (if access_count block > 5 \<and> now - last_access block < 300
        then (if enat (working_size st + size_bytes block) \<le> TIER_LIMITS Working
              then move_between_tiers st path Archival Working else st)
        else st)"

fun demote_pass :: "real \<Rightarrow> tier_store \<Rightarrow> engine \<Rightarrow> engine" where
  "demote_pass now [] st = st"
| "demote_pass now ((path, block) # rest) st =
     demote_pass now rest
       (if now - last_access block > 600
        then move_between_tiers st path Working Archival else st)"

fun archive_pass :: "real \<Rightarrow> tier_store \<Rightarrow> engine \<Rightarrow> engine" where
  "archive_pass now [] st = st"
| "archive_pass now ((path, block) # rest) st =
     archive_pass now rest
       (if now - last_access block > 3600
        then move_between_tiers st path Archival Overflow else st)"

definition reorganize_memories :: "real \<Rightarrow> engine \<Rightarrow> engine" where
  "reorganize_memories now st =
     (let st1 = promote_pass now (memory_blocks st Archival) st;
          st2 = demote_pass now (memory_blocks st1 Working) st1;
          st3 = archive_pass now (memory_blocks st2 Archival) st2
      in st3)"

definition reorganize_if_needed :: "real \<Rightarrow> engine \<Rightarrow> engine" where
  "reorganize_if_needed now st =
     (let st1 = st\<lparr>reorganize_counter := reorganize_counter st + 1\<rparr> in
      if reorganize_counter st1 \<ge> reorganize_threshold
      then (reorganize_memories now st1)\<lparr>reorganize_counter := 0\<rparr>
      else st1)"

subsection \<open>Dispatcher\<close>

text \<open>
  The tool input is a dictionary; each field is absent (\<open>None\<close>) or present with a value
  of its declared type. \<open>if not x\<close> holds for an absent field and for an empty string.
\<close>

record tool_input =
  command :: "pystr option"
  path :: "pystr option"
  view_range :: "int list option"
  file_text :: "pystr option"
  old_str :: "pystr option"
  new_str :: "pystr option"
  insert_line :: "int option"
  insert_text :: "pystr option"
  old_path :: "pystr option"
  new_path :: "pystr option"

definition falsy :: "pystr option \<Rightarrow> bool" where
  "falsy x = (case x of None \<Rightarrow> True | Some s \<Rightarrow> s = [])"

definition get_default :: "'a option \<Rightarrow> 'a \<Rightarrow> 'a" where
  "get_default x d = (case x of None \<Rightarrow> d | Some v \<Rightarrow> v)"

definition handle_view :: "engine \<Rightarrow> real \<Rightarrow> tool_input \<Rightarrow> (exn + pystr) \<times> engine" where
  "handle_view st now inp = view st now (get_default (path inp) (ustr ''/memories'')) (view_range inp)"

definition returns :: "pystr \<times> engine \<Rightarrow> (exn + pystr) \<times> engine" where
  "returns r = (Inr (fst r), snd r)"

definition handle_create :: "engine \<Rightarrow> real \<Rightarrow> tool_input \<Rightarrow> (exn + pystr) \<times> engine" where
  "handle_create st now inp =
     (if falsy (path inp) then returns (ustr ''Error: No path specified'', st)
      else returns (create st now (the (path inp)) (get_default (file_text inp) [])))"

definition handle_str_replace :: "engine \<Rightarrow> real \<Rightarrow> tool_input \<Rightarrow> (exn + pystr) \<times> engine" where
  "handle_str_replace st now inp =
     (if falsy (path inp) \<or> old_str inp = None \<or> new_str inp = None
      then returns (ustr ''Error: Missing required parameters'', st)
      else returns (str_replace st now (the (path inp)) (the (old_str inp)) (the (new_str inp))))"

definition handle_insert :: "engine \<Rightarrow> real \<Rightarrow> tool_input \<Rightarrow> (exn + pystr) \<times> engine" where
  "handle_insert st now inp =
     (if falsy (path inp) \<or> insert_line inp = None
      then returns (ustr ''Error: Missing required parameters'', st)
      else returns (insert_cmd st now (the (path inp)) (the (insert_line inp))
                      (get_default (insert_text inp) [])))"

definition handle_delete :: "engine \<Rightarrow> real \<Rightarrow> tool_input \<Rightarrow> (exn + pystr) \<times> engine" where
  "handle_delete st now inp =
     (if falsy (path inp) then returns (ustr ''Error: No path specified'', st)
      else returns (delete_cmd st (the (path inp))))"

definition handle_rename :: "engine \<Rightarrow> real \<Rightarrow> tool_input \<Rightarrow> (exn + pystr) \<times> engine" where
  "handle_rename st now inp =
     (if falsy (old_path inp) \<or> falsy (new_path inp)
      then returns (ustr ''Error: Both paths required'', st)
      else returns (rename st (the (old_path inp)) (the (new_path inp))))"

definition handlers :: "pystr \<Rightarrow> (engine \<Rightarrow> real \<Rightarrow> tool_input \<Rightarrow> (exn + pystr) \<times> engine) option" where
  "handlers cmd =
     (if cmd = ustr ''view'' then Some handle_view
      else if cmd = ustr ''create'' then Some handle_create
      else if cmd = ustr ''str_replace'' then Some handle_str_replace
      else if cmd = ustr ''insert'' then Some handle_insert
      else if cmd = ustr ''delete'' then Some handle_delete
      else if cmd = ustr ''rename'' then Some handle_rename
      else None)"

text \<open>
  \<open>handle_tool_call\<close>: \<open>Inl\<close> would be an exception that reaches the caller. An exception
  of the handler skips the reorganization check and is rendered as \<open>Error: str(e)\<close>.
\<close>

definition handle_tool_call :: "engine \<Rightarrow> real \<Rightarrow> tool_input \<Rightarrow> (exn + pystr) \<times> engine" where
  "handle_tool_call st now inp =
     (if falsy (command inp) then (Inr (ustr ''Error: No command specified''), st)
      else
        let cmd = the (command inp) in
        case handlers cmd of
          None \<Rightarrow> (Inr (ustr ''Error: Unknown command '' @ [39] @ cmd @ [39]), st)
        | Some handler \<Rightarrow>
            let st1 = st\<lparr>operation_counts := (operation_counts st)(cmd := operation_counts st cmd + 1)\<rparr>
            in (case handler st1 now inp of
                 (Inr result, st2) \<Rightarrow> (Inr result, reorganize_if_needed now st2)
               | (Inl e, st2) \<Rightarrow> (Inr (ustr ''Error: '' @ exn_str e), st2)))"

subsection \<open>Example states and inputs\<close>

text \<open>The empty dictionary as a tool input.\<close>

definition empty_input :: tool_input where
  "empty_input = \<lparr>command = None, path = None, view_range = None, file_text = None,
     old_str = None, new_str = None, insert_line = None, insert_text = None,
     old_path = None, new_path = None\<rparr>"

definition create_input :: "pystr \<Rightarrow> pystr \<Rightarrow> tool_input" where
  "create_input p text = empty_input\<lparr>command := Some (ustr ''create''), path := Some p, file_text := Some text\<rparr>"

text \<open>A fresh engine after \<open>create("/memories/big", "x" * 4000)\<close> at time 0.\<close>

definition st_working_4000 :: engine where
  "st_working_4000 = snd (create fresh_engine 0 (ustr ''/memories/big'') (replicate 4000 120))"

text \<open>
  A fresh engine after the tool calls \<open>create /memories/a "y"\<close> at time 0 and
  \<open>create /memories/a "x" * 5000\<close> at time 1.
\<close>

definition st_created_twice :: engine where
  "st_created_twice =
     snd (handle_tool_call
            (snd (handle_tool_call fresh_engine 0 (create_input (ustr ''/memories/a'') (ustr ''y''))))
            1 (create_input (ustr ''/memories/a'') (replicate 5000 120)))"

text \<open>A fresh engine after \<open>create("/memories/f", "A\nB")\<close> at time 0.\<close>

definition st_two_lines :: engine where
  "st_two_lines = snd (create fresh_engine 0 (ustr ''/memories/f'') (ustr ''A'' @ [10] @ ustr ''B''))"

text \<open>A fresh engine after \<open>create("/memories/f", "aab")\<close> at time 0.\<close>

definition st_aab :: engine where
  "st_aab = snd (create fresh_engine 0 (ustr ''/memories/f'') (ustr ''aab''))"

text \<open>The keys of a Python \<open>dict\<close> are unique: the invariant of the association lists.\<close>

definition keys_unique :: "engine \<Rightarrow> bool" where
  "keys_unique st \<longleftrightarrow>
     distinct (map fst (memory_blocks st Working))
     \<and> distinct (map fst (memory_blocks st Archival))
     \<and> distinct (map fst (memory_blocks st Overflow))"


text \<open>A sequence of tool calls, each with the time at which it is made.\<close>

fun run_calls :: "engine \<Rightarrow> (real \<times> tool_input) list \<Rightarrow> engine" where
  "run_calls st [] = st"
| "run_calls st ((now, inp) # calls) = run_calls (snd (handle_tool_call st now inp)) calls"



text \<open>The key is in the overflow tier and in no warmer tier.\<close>

definition only_in_overflow :: "engine \<Rightarrow> pystr \<Rightarrow> bool" where
  "only_in_overflow st k \<longleftrightarrow>
     map_of (memory_blocks st Working) k = None
     \<and> map_of (memory_blocks st Archival) k = None
     \<and> map_of (memory_blocks st Overflow) k \<noteq> None"


text \<open>Tier exclusivity: no key is in the mappings of two tiers.\<close>

definition tier_exclusive :: "engine \<Rightarrow> bool" where
  "tier_exclusive st \<longleftrightarrow>
     (\<forall>k t t'. map_of (memory_blocks st t) k \<noteq> None
         \<longrightarrow> map_of (memory_blocks st t') k \<noteq> None \<longrightarrow> t = t')"

section \<open>Properties\<close>

lemma ustr_simps [simp]: "ustr [] = []" "ustr (c # cs) = of_char c # ustr cs"
  by (simp_all add: ustr_def)

lemmas eval_defs = fresh_engine_def init_engine_def load_memories_def validate_path_def
  create_def set_block_def del_block_def move_between_tiers_def Let_def determine_tier_def
  recent_accesses_def working_size_def TIER_LIMITS_def tier_value_def find_in_tiers_def
  update_access_def record_access_def predict_next_access_def
  create_input_def empty_input_def handle_tool_call_def handlers_def handle_create_def
  handle_view_def handle_str_replace_def handle_insert_def handle_delete_def handle_rename_def
  falsy_def get_default_def returns_def reorganize_if_needed_def reorganize_threshold_def
  reorganize_memories_def

subsection \<open>Placement policy\<close>

text \<open>
  Claim C1. The placement policy returns \<open>working\<close> when the key has more than 3 recorded
  accesses less than 300 seconds old; otherwise \<open>working\<close> when the text has at most 4096
  characters and the sizes of the working blocks plus its length stay within 4096;
  otherwise \<open>archival\<close> when it has at most 102400 characters; otherwise \<open>overflow\<close>. In
  particular a 500-character \<open>create\<close> for a key without such recent accesses, while the
  working tier holds 4000, puts the block into the archival tier and leaves the working
  tier as it was.
\<close>

theorem determine_tier_policy:
  "determine_tier st now key text =
     (if 3 < length (filter (\<lambda>t. now - t < 300)
                (case map_of (access_patterns st) key of None \<Rightarrow> [] | Some ts \<Rightarrow> ts))
      then Working
      else if length text \<le> 4096
              \<and> sum_list (map (\<lambda>kb. size_bytes (snd kb)) (memory_blocks st Working)) + length text \<le> 4096
      then Working
      else if length text \<le> 102400 then Archival
      else Overflow)
   \<and> (\<not> 3 < length (filter (\<lambda>t. now - t < 300)
                (case map_of (access_patterns st) (validate_path p) of None \<Rightarrow> [] | Some ts \<Rightarrow> ts))
        \<and> sum_list (map (\<lambda>kb. size_bytes (snd kb)) (memory_blocks st Working)) = 4000
        \<and> length text = 500
      \<longrightarrow> (\<exists>b. map_of (memory_blocks (snd (create st now p text)) Archival) (validate_path p) = Some b
                \<and> tier b = Archival \<and> content b = text)
          \<and> memory_blocks (snd (create st now p text)) Working = memory_blocks st Working)"
proof -
  have eq: "determine_tier st now k text =
     (if 3 < length (filter (\<lambda>t. now - t < 300)
                (case map_of (access_patterns st) k of None \<Rightarrow> [] | Some ts \<Rightarrow> ts))
      then Working
      else if length text \<le> 4096
              \<and> sum_list (map (\<lambda>kb. size_bytes (snd kb)) (memory_blocks st Working)) + length text \<le> 4096
      then Working
      else if length text \<le> 102400 then Archival
      else Overflow)" for k
    by (simp add: determine_tier_def Let_def recent_accesses_def working_size_def TIER_LIMITS_def
        split: option.splits)
  show ?thesis
    apply (rule conjI)
     apply (rule eq)
    apply (simp only: create_def Let_def eq [of "validate_path p"])
    apply (simp add: set_block_def update_conv')
    done
qed

theorem determine_tier_policy_witness:
  "(\<not> 3 < length (filter (\<lambda>t. 10 - t < 300)
                (case map_of (access_patterns st_working_4000) (validate_path (ustr ''/memories/new'')) of
                   None \<Rightarrow> [] | Some ts \<Rightarrow> ts))
     \<and> sum_list (map (\<lambda>kb. size_bytes (snd kb)) (memory_blocks st_working_4000 Working)) = 4000
     \<and> length (replicate 500 (121::nat)) = 500)
   \<and> (\<exists>b. map_of (memory_blocks (snd (create st_working_4000 10 (ustr ''/memories/new'') (replicate 500 121))) Archival)
         (validate_path (ustr ''/memories/new'')) = Some b \<and> tier b = Archival \<and> content b = replicate 500 121)"
proof -
  have h: "\<not> 3 < length (filter (\<lambda>t. 10 - t < 300)
                (case map_of (access_patterns st_working_4000) (validate_path (ustr ''/memories/new'')) of
                   None \<Rightarrow> [] | Some ts \<Rightarrow> ts))
     \<and> sum_list (map (\<lambda>kb. size_bytes (snd kb)) (memory_blocks st_working_4000 Working)) = 4000
     \<and> length (replicate 500 (121::nat)) = 500"
    by (simp add: st_working_4000_def eval_defs)
  show ?thesis
    using h determine_tier_policy [of st_working_4000 10 "ustr ''new''" "replicate 500 121" "ustr ''/memories/new''"]
    by blast
qed

subsection \<open>Create\<close>



text \<open>
  Claim C8 fails on the code. \<open>size_bytes\<close> is \<open>len(content)\<close>, the number of code
  points: \<open>create\<close> with the one-character text U+00E9 stores \<open>size_bytes = 1\<close>, while
  the UTF-8 encoding of that text, which is what the file holds, has 2 bytes.
\<close>

theorem size_bytes_counts_code_points:
  "map_of (memory_blocks (snd (create fresh_engine 0 (ustr ''/memories/a'') [233])) Working) (ustr ''a'')
     = Some \<lparr>content = [233], tier = Working, access_count = 0, last_access = 0,
             importance_score = 1 / 2, created_at = 0, size_bytes = 1\<rparr>
   \<and> utf8_len [233] = 2"
  by (simp add: eval_defs utf8_len_def utf8_len_cp_def)

text \<open>
  Claim C2 fails on the code. \<open>create\<close> stores the new block in the tier the policy
  chooses and never removes an entry the key has in another tier. After the tool calls
  \<open>create /memories/a "y"\<close> and \<open>create /memories/a "x" * 5000\<close> on a fresh engine the
  key \<open>a\<close> is in the working tier, with the old text, and in the archival tier, with the
  new one; \<open>view\<close> then returns the old text.
\<close>

theorem create_leaves_stale_copy:
  "map_of (memory_blocks st_created_twice Working) (ustr ''a'')
     = Some \<lparr>content = ustr ''y'', tier = Working, access_count = 0, last_access = 0,
             importance_score = 1 / 2, created_at = 0, size_bytes = 1\<rparr>
   \<and> map_of (memory_blocks st_created_twice Archival) (ustr ''a'')
     = Some \<lparr>content = replicate 5000 120, tier = Archival, access_count = 0, last_access = 1,
             importance_score = 1 / 2, created_at = 1, size_bytes = 5000\<rparr>
   \<and> fst (view st_created_twice 2 (ustr ''/memories/a'') None) = Inr (ustr ''y'')"
  by (simp add: st_created_twice_def eval_defs view_def)

subsection \<open>Auxiliary facts\<close>

declare pad_lines.simps [simp del]

lemma pad_lines_replicate: "pad_lines lines n = lines @ replicate (n - length lines) []"
proof (induction lines n rule: pad_lines.induct)
  case (1 lines n)
  show ?case
  proof (cases "length lines < n")
    case True
    then have "n - length lines = Suc (n - Suc (length lines))" by simp
    with True "1" show ?thesis
      by (subst pad_lines.simps) (simp add: replicate_append_same)
  next
    case False
    then show ?thesis by (subst pad_lines.simps) simp
  qed
qed

lemma map_of_set_block:
  "map_of (memory_blocks (set_block st t k b) t') k' =
     (if t' = t \<and> k' = k then Some b else map_of (memory_blocks st t') k')"
  by (simp add: set_block_def update_conv')

lemma map_of_del_block:
  "map_of (memory_blocks (del_block st t k) t') k' =
     (if t' = t \<and> k' = k then None else map_of (memory_blocks st t') k')"
  by (simp add: del_block_def delete_conv')

lemma map_of_move_between_tiers:
  "map_of (memory_blocks (move_between_tiers st k from_tier to_tier) t') k' =
     (case map_of (memory_blocks st from_tier) k of
        None \<Rightarrow> map_of (memory_blocks st t') k'
      | Some b \<Rightarrow> if k' = k \<and> t' = to_tier then Some (b\<lparr>tier := to_tier\<rparr>)
                  else if k' = k \<and> t' = from_tier then None
                  else map_of (memory_blocks st t') k')"
  by (auto simp add: move_between_tiers_def map_of_set_block map_of_del_block split: option.splits)

text \<open>The block a command has changed in place, after the placement check.\<close>

lemma replaced_block_located:
  assumes "st1 = set_block st t k b'"
    and "st2 = (if nt \<noteq> t then move_between_tiers st1 k t nt else st1)"
  shows "map_of (memory_blocks st2 nt) k = Some (if nt \<noteq> t then b'\<lparr>tier := nt\<rparr> else b')"
  using assms by (simp add: map_of_move_between_tiers map_of_set_block)

declare str_of_nat.simps [simp del]

lemma replicate_numeral: "replicate (numeral k) x = x # replicate (pred_numeral k) x"
  by (simp add: numeral_eq_Suc)

lemmas eval_more = replicate_numeral eval_defs insert_cmd_def str_replace_def view_def delete_cmd_def rename_def
  py_splitlines_def is_linebreak_def pad_lines_replicate list_insert_def str_of_int_def
  str_of_nat.simps st_two_lines_def st_working_4000_def

subsection \<open>Insert\<close>

text \<open>
  Claim C7. \<open>insert\<close> on an absent key behaves as \<open>create\<close> with the text when the line
  is 0 and returns an error string otherwise; on a present key it returns an error
  string for a negative line, and otherwise splits the content into lines, pads with
  empty lines while there are fewer than \<open>insert_line\<close>, puts the text as one new element
  at position \<open>insert_line\<close> and joins the lines again. Inserting \<open>X\<close> at line 0 into
  \<open>[A, B]\<close> gives \<open>[X, A, B]\<close>, at line 5 it gives \<open>[A, B, "", "", "", X]\<close>.
\<close>

theorem insert_semantics:
  "(find_in_tiers st (validate_path p) = None \<longrightarrow>
      insert_cmd st now p 0 ins = create st now p ins
      \<and> (line \<noteq> 0 \<longrightarrow> insert_cmd st now p line ins
            = (ustr ''Error: Cannot insert at line '' @ str_of_int line
                 @ ustr '' in non-existent file'', st)))
   \<and> (find_in_tiers st (validate_path p) = Some (t, b) \<longrightarrow>
        (line < 0 \<longrightarrow> insert_cmd st now p line ins
            = (ustr ''Error: Line number must be non-negative'', st))
        \<and> (0 \<le> line \<longrightarrow>
             fst (insert_cmd st now p line ins)
               = ustr ''Inserted text at line '' @ str_of_int line @ ustr '' in '' @ p
             \<and> (\<exists>t' b'. map_of (memory_blocks (snd (insert_cmd st now p line ins)) t') (validate_path p)
                          = Some b'
                  \<and> content b'
                      = py_join [10]
                          (take (nat line)
                             (py_splitlines (content b)
                                @ replicate (nat line - length (py_splitlines (content b))) [])
                           @ ins
                           # drop (nat line)
                               (py_splitlines (content b)
                                  @ replicate (nat line - length (py_splitlines (content b))) [])))))
   \<and> list_insert (pad_lines [A, B] 0) 0 X = [X, A, B]
   \<and> list_insert (pad_lines [A, B] 5) 5 X = [A, B, [], [], [], X]"
proof -
  have absent: "find_in_tiers st (validate_path p) = None \<Longrightarrow>
      insert_cmd st now p 0 ins = create st now p ins
      \<and> (line \<noteq> 0 \<longrightarrow> insert_cmd st now p line ins
            = (ustr ''Error: Cannot insert at line '' @ str_of_int line
                 @ ustr '' in non-existent file'', st))"
    by (simp add: insert_cmd_def Let_def)
  have neg: "find_in_tiers st (validate_path p) = Some (t, b) \<Longrightarrow> line < 0 \<Longrightarrow>
      insert_cmd st now p line ins = (ustr ''Error: Line number must be non-negative'', st)"
    by (simp add: insert_cmd_def Let_def)
  have msg: "find_in_tiers st (validate_path p) = Some (t, b) \<Longrightarrow> 0 \<le> line \<Longrightarrow>
      fst (insert_cmd st now p line ins)
        = ustr ''Inserted text at line '' @ str_of_int line @ ustr '' in '' @ p"
    by (simp add: insert_cmd_def Let_def)
  have blk: "\<exists>t' b'. map_of (memory_blocks (snd (insert_cmd st now p line ins)) t') (validate_path p)
                          = Some b'
                  \<and> content b'
                      = py_join [10]
                          (take (nat line)
                             (py_splitlines (content b)
                                @ replicate (nat line - length (py_splitlines (content b))) [])
                           @ ins
                           # drop (nat line)
                               (py_splitlines (content b)
                                  @ replicate (nat line - length (py_splitlines (content b))) []))"
    if f: "find_in_tiers st (validate_path p) = Some (t, b)" and l: "0 \<le> line"
  proof -
    define ntext where "ntext = py_join [10] (list_insert (pad_lines (py_splitlines (content b)) (nat line)) (nat line) ins)"
    define b1 where "b1 = update_access now (b\<lparr>content := ntext, size_bytes := length ntext\<rparr>)"
    define st1 where "st1 = set_block st t (validate_path p) b1"
    define nt where "nt = determine_tier st1 now (validate_path p) (content b1)"
    define st2 where "st2 = (if nt \<noteq> t then move_between_tiers st1 (validate_path p) t nt else st1)"
    have s: "snd (insert_cmd st now p line ins) = st2"
      using f l by (simp add: insert_cmd_def Let_def st2_def nt_def st1_def b1_def ntext_def)
    have "map_of (memory_blocks st2 nt) (validate_path p) = Some (if nt \<noteq> t then b1\<lparr>tier := nt\<rparr> else b1)"
      by (rule replaced_block_located [OF st1_def st2_def])
    moreover have "content (if nt \<noteq> t then b1\<lparr>tier := nt\<rparr> else b1) = ntext"
      by (simp add: b1_def update_access_def)
    ultimately show ?thesis
      unfolding s ntext_def list_insert_def pad_lines_replicate by blast
  qed
  have ex: "list_insert (pad_lines [A, B] 0) 0 X = [X, A, B]"
    "list_insert (pad_lines [A, B] 5) 5 X = [A, B, [], [], [], X]"
    by (simp_all add: list_insert_def pad_lines_replicate numeral_eq_Suc)
  from absent neg msg blk ex show ?thesis by blast
qed

theorem insert_semantics_witness:
  "find_in_tiers fresh_engine (validate_path (ustr ''/memories/f'')) = None
   \<and> (3::int) \<noteq> 0
   \<and> insert_cmd fresh_engine 0 (ustr ''/memories/f'') 0 (ustr ''X'')
       = create fresh_engine 0 (ustr ''/memories/f'') (ustr ''X'')
   \<and> insert_cmd fresh_engine 0 (ustr ''/memories/f'') 3 (ustr ''X'')
       = (ustr ''Error: Cannot insert at line '' @ str_of_int 3 @ ustr '' in non-existent file'',
          fresh_engine)
   \<and> find_in_tiers st_two_lines (validate_path (ustr ''/memories/f''))
       = Some (Working, \<lparr>content = [65, 10, 66], tier = Working, access_count = 0,
                 last_access = 0, importance_score = 1 / 2, created_at = 0, size_bytes = 3\<rparr>)
   \<and> (- 1 :: int) < 0
   \<and> insert_cmd st_two_lines 1 (ustr ''/memories/f'') (- 1) (ustr ''X'')
       = (ustr ''Error: Line number must be non-negative'', st_two_lines)
   \<and> (0::int) \<le> 5
   \<and> fst (insert_cmd st_two_lines 1 (ustr ''/memories/f'') 5 (ustr ''X''))
       = ustr ''Inserted text at line '' @ str_of_int 5 @ ustr '' in '' @ ustr ''/memories/f''
   \<and> map_of (memory_blocks (snd (insert_cmd st_two_lines 1 (ustr ''/memories/f'') 5 (ustr ''X''))) Working)
         (ustr ''f'')
       = Some \<lparr>content = [65, 10, 66, 10, 10, 10, 10, 88], tier = Working, access_count = 1,
               last_access = 1, importance_score = 1 / 2, created_at = 0, size_bytes = 8\<rparr>"
proof -
  have h1: "find_in_tiers fresh_engine (validate_path (ustr ''/memories/f'')) = None"
    by (simp add: eval_more)
  have h2: "find_in_tiers st_two_lines (validate_path (ustr ''/memories/f''))
       = Some (Working, \<lparr>content = [65, 10, 66], tier = Working, access_count = 0,
                 last_access = 0, importance_score = 1 / 2, created_at = 0, size_bytes = 3\<rparr>)"
    by (simp add: eval_more)
  have h3: "map_of (memory_blocks (snd (insert_cmd st_two_lines 1 (ustr ''/memories/f'') 5 (ustr ''X''))) Working)
         (ustr ''f'')
       = Some \<lparr>content = [65, 10, 66, 10, 10, 10, 10, 88], tier = Working, access_count = 1,
               last_access = 1, importance_score = 1 / 2, created_at = 0, size_bytes = 8\<rparr>"
    by (simp add: eval_more)
  have a: "(3::int) \<noteq> 0" "(- 1 :: int) < 0" "(0::int) \<le> 5" by simp_all
  note i1 = insert_semantics [where st = fresh_engine and p = "ustr ''/memories/f''" and now = 0
      and ins = "ustr ''X''" and line = 3]
  note i2 = insert_semantics [where st = st_two_lines and p = "ustr ''/memories/f''" and now = 1
      and ins = "ustr ''X''" and line = "- 1" and t = Working
      and b = "\<lparr>content = [65, 10, 66], tier = Working, access_count = 0,
                 last_access = 0, importance_score = 1 / 2, created_at = 0, size_bytes = 3\<rparr>"]
  note i3 = insert_semantics [where st = st_two_lines and p = "ustr ''/memories/f''" and now = 1
      and ins = "ustr ''X''" and line = 5 and t = Working
      and b = "\<lparr>content = [65, 10, 66], tier = Working, access_count = 0,
                 last_access = 0, importance_score = 1 / 2, created_at = 0, size_bytes = 3\<rparr>"]
  show ?thesis
    using h1 h2 h3 a i1 i2 i3 by blast
qed

subsection \<open>Access time of a written block\<close>

text \<open>
  Claim C3 says that \<open>create\<close>, \<open>str_replace\<close> and \<open>insert\<close> leave \<open>last_access\<close> as it
  was. The code does otherwise: \<open>str_replace\<close> and \<open>insert\<close> call \<open>update_access\<close> and
  \<open>create\<close> builds its block with \<open>last_access = now\<close>. A block created at time 0 and
  changed by \<open>str_replace\<close> at time 1000 has \<open>last_access = 1000\<close>.
\<close>

theorem str_replace_sets_last_access:
  "map_of (memory_blocks st_two_lines Working) (ustr ''f'')
     = Some \<lparr>content = [65, 10, 66], tier = Working, access_count = 0, last_access = 0,
             importance_score = 1 / 2, created_at = 0, size_bytes = 3\<rparr>
   \<and> map_of (memory_blocks
               (snd (str_replace st_two_lines 1000 (ustr ''/memories/f'') (ustr ''A'') (ustr ''C'')))
               Working) (ustr ''f'')
     = Some \<lparr>content = [67, 10, 66], tier = Working, access_count = 1, last_access = 1000,
             importance_score = 1 / 2, created_at = 0, size_bytes = 3\<rparr>
   \<and> last_access (the (map_of (memory_blocks
               (snd (str_replace st_two_lines 1000 (ustr ''/memories/f'') (ustr ''A'') (ustr ''C'')))
               Working) (ustr ''f'')))
     \<noteq> last_access (the (map_of (memory_blocks st_two_lines Working) (ustr ''f'')))"
  by (simp add: eval_more)

text \<open>
  Claim C3 as amended. The block \<open>create\<close> stores has \<open>last_access = now\<close> and access
  count 0; a successful \<open>str_replace\<close> or \<open>insert\<close> on an existing key sets \<open>last_access\<close>
  to \<open>now\<close> and adds 1 to the access count, as a view does; a \<open>str_replace\<close> whose old
  string is absent and an \<open>insert\<close> with a negative line leave the state as it was.
\<close>

theorem writes_refresh_last_access:
  "(\<exists>b'. map_of (memory_blocks (snd (create st now p body))
                    (determine_tier st now (validate_path p) body)) (validate_path p) = Some b'
        \<and> last_access b' = now \<and> access_count b' = 0)
   \<and> (find_in_tiers st (validate_path p) = Some (t, b) \<longrightarrow>
        (py_in old (content b) \<longrightarrow>
           (\<exists>t' b'. map_of (memory_blocks (snd (str_replace st now p old new)) t') (validate_path p)
                        = Some b'
               \<and> last_access b' = now \<and> access_count b' = access_count b + 1))
        \<and> (\<not> py_in old (content b) \<longrightarrow> snd (str_replace st now p old new) = st)
        \<and> (0 \<le> line \<longrightarrow>
           (\<exists>t' b'. map_of (memory_blocks (snd (insert_cmd st now p line body)) t') (validate_path p)
                        = Some b'
               \<and> last_access b' = now \<and> access_count b' = access_count b + 1))
        \<and> (line < 0 \<longrightarrow> snd (insert_cmd st now p line body) = st))"
proof -
  have cr: "\<exists>b'. map_of (memory_blocks (snd (create st now p body))
                    (determine_tier st now (validate_path p) body)) (validate_path p) = Some b'
        \<and> last_access b' = now \<and> access_count b' = 0"
    by (simp add: create_def Let_def map_of_set_block)
  have fail: "\<not> py_in old (content b) \<Longrightarrow> snd (str_replace st now p old new) = st"
    "line < 0 \<Longrightarrow> snd (insert_cmd st now p line body) = st"
    if f: "find_in_tiers st (validate_path p) = Some (t, b)"
    using f by (simp_all add: str_replace_def insert_cmd_def Let_def)
  have rep: "\<exists>t' b'. map_of (memory_blocks (snd (str_replace st now p old new)) t') (validate_path p)
                        = Some b'
               \<and> last_access b' = now \<and> access_count b' = access_count b + 1"
    if f: "find_in_tiers st (validate_path p) = Some (t, b)" and i: "py_in old (content b)"
  proof -
    define ntext where "ntext = py_replace (content b) old new"
    define b1 where "b1 = update_access now (b\<lparr>content := ntext, size_bytes := length ntext\<rparr>)"
    define st1 where "st1 = set_block st t (validate_path p) b1"
    define nt where "nt = determine_tier st1 now (validate_path p) (content b1)"
    define st2 where "st2 = (if nt \<noteq> t then move_between_tiers st1 (validate_path p) t nt else st1)"
    have s: "snd (str_replace st now p old new) = st2"
      using f i by (simp add: str_replace_def Let_def st2_def nt_def st1_def b1_def ntext_def)
    have "map_of (memory_blocks st2 nt) (validate_path p) = Some (if nt \<noteq> t then b1\<lparr>tier := nt\<rparr> else b1)"
      by (rule replaced_block_located [OF st1_def st2_def])
    moreover have "last_access (if nt \<noteq> t then b1\<lparr>tier := nt\<rparr> else b1) = now"
      "access_count (if nt \<noteq> t then b1\<lparr>tier := nt\<rparr> else b1) = access_count b + 1"
      by (simp_all add: b1_def update_access_def)
    ultimately show ?thesis unfolding s by blast
  qed
  have ins: "\<exists>t' b'. map_of (memory_blocks (snd (insert_cmd st now p line body)) t') (validate_path p)
                        = Some b'
               \<and> last_access b' = now \<and> access_count b' = access_count b + 1"
    if f: "find_in_tiers st (validate_path p) = Some (t, b)" and l: "0 \<le> line"
  proof -
    define ntext where "ntext = py_join [10] (list_insert (pad_lines (py_splitlines (content b)) (nat line)) (nat line) body)"
    define b1 where "b1 = update_access now (b\<lparr>content := ntext, size_bytes := length ntext\<rparr>)"
    define st1 where "st1 = set_block st t (validate_path p) b1"
    define nt where "nt = determine_tier st1 now (validate_path p) (content b1)"
    define st2 where "st2 = (if nt \<noteq> t then move_between_tiers st1 (validate_path p) t nt else st1)"
    have s: "snd (insert_cmd st now p line body) = st2"
      using f l by (simp add: insert_cmd_def Let_def st2_def nt_def st1_def b1_def ntext_def)
    have "map_of (memory_blocks st2 nt) (validate_path p) = Some (if nt \<noteq> t then b1\<lparr>tier := nt\<rparr> else b1)"
      by (rule replaced_block_located [OF st1_def st2_def])
    moreover have "last_access (if nt \<noteq> t then b1\<lparr>tier := nt\<rparr> else b1) = now"
      "access_count (if nt \<noteq> t then b1\<lparr>tier := nt\<rparr> else b1) = access_count b + 1"
      by (simp_all add: b1_def update_access_def)
    ultimately show ?thesis unfolding s by blast
  qed
  from cr fail rep ins show ?thesis by blast
qed

theorem writes_refresh_last_access_witness:
  "find_in_tiers st_two_lines (validate_path (ustr ''/memories/f''))
       = Some (Working, \<lparr>content = [65, 10, 66], tier = Working, access_count = 0,
                 last_access = 0, importance_score = 1 / 2, created_at = 0, size_bytes = 3\<rparr>)
   \<and> py_in (ustr ''A'') [65, 10, 66]
   \<and> \<not> py_in (ustr ''Z'') [65, 10, 66]
   \<and> snd (str_replace st_two_lines 1000 (ustr ''/memories/f'') (ustr ''Z'') (ustr ''C'')) = st_two_lines
   \<and> (0::int) \<le> 1 \<and> (- 1 :: int) < 0
   \<and> snd (insert_cmd st_two_lines 1000 (ustr ''/memories/f'') (- 1) (ustr ''X'')) = st_two_lines
   \<and> map_of (memory_blocks
               (snd (str_replace st_two_lines 1000 (ustr ''/memories/f'') (ustr ''A'') (ustr ''C'')))
               Working) (ustr ''f'')
       = Some \<lparr>content = [67, 10, 66], tier = Working, access_count = 1, last_access = 1000,
             importance_score = 1 / 2, created_at = 0, size_bytes = 3\<rparr>
   \<and> map_of (memory_blocks
               (snd (insert_cmd st_two_lines 1000 (ustr ''/memories/f'') 1 (ustr ''X'')))
               Working) (ustr ''f'')
       = Some \<lparr>content = [65, 10, 88, 10, 66], tier = Working, access_count = 1, last_access = 1000,
             importance_score = 1 / 2, created_at = 0, size_bytes = 5\<rparr>"
proof -
  have h1: "find_in_tiers st_two_lines (validate_path (ustr ''/memories/f''))
       = Some (Working, \<lparr>content = [65, 10, 66], tier = Working, access_count = 0,
                 last_access = 0, importance_score = 1 / 2, created_at = 0, size_bytes = 3\<rparr>)"
    by (simp add: eval_more)
  have h2: "py_in (ustr ''A'') [65, 10, 66]" "\<not> py_in (ustr ''Z'') [65, 10, 66]"
    "(0::int) \<le> 1" "(- 1 :: int) < 0"
    by simp_all
  have e1: "map_of (memory_blocks
               (snd (str_replace st_two_lines 1000 (ustr ''/memories/f'') (ustr ''A'') (ustr ''C'')))
               Working) (ustr ''f'')
       = Some \<lparr>content = [67, 10, 66], tier = Working, access_count = 1, last_access = 1000,
             importance_score = 1 / 2, created_at = 0, size_bytes = 3\<rparr>"
    by (simp add: eval_more)
  have e2: "map_of (memory_blocks
               (snd (insert_cmd st_two_lines 1000 (ustr ''/memories/f'') 1 (ustr ''X'')))
               Working) (ustr ''f'')
       = Some \<lparr>content = [65, 10, 88, 10, 66], tier = Working, access_count = 1, last_access = 1000,
             importance_score = 1 / 2, created_at = 0, size_bytes = 5\<rparr>"
    by (simp add: eval_more)
  note w1 = writes_refresh_last_access [where st = st_two_lines and p = "ustr ''/memories/f''"
      and now = 1000 and old = "ustr ''Z''" and new = "ustr ''C''" and line = "- 1" and body = "ustr ''X''"
      and t = Working
      and b = "\<lparr>content = [65, 10, 66], tier = Working, access_count = 0,
                 last_access = 0, importance_score = 1 / 2, created_at = 0, size_bytes = 3\<rparr>"]
  show ?thesis
    using h1 h2 e1 e2 w1 by simp
qed

subsection \<open>Replace\<close>

lemma py_in_iff_count: "py_in old s \<longleftrightarrow> 1 \<le> py_count s old"
  by (induction s old rule: py_count.induct) auto

lemma length_py_replace:
  "length (py_replace s old new) + py_count s old * length old
     = length s + py_count s old * length new"
proof (induction s old new rule: py_replace.induct)
  case (1 old new)
  then show ?case by simp
next
  case (2 c cs old new)
  show ?case
  proof (cases "old = []")
    case True
    with 2 show ?thesis by simp
  next
    case False
    show ?thesis
    proof (cases "prefix old (c # cs)")
      case True
      then have le: "length old \<le> length (c # cs)" by (rule prefix_length_le)
      from 2(2) [OF False True] le False True show ?thesis by simp
    next
      case no: False
      with 2(3) [OF False no] False show ?thesis by simp
    qed
  qed
qed

lemma py_in_single: "py_in [c] s \<longleftrightarrow> c \<in> set s"
  by (induction s) auto

lemma set_py_replace_single: "set (py_replace s [c] new) \<subseteq> (set s - {c}) \<union> set new"
  by (induction s "[c]" new rule: py_replace.induct) auto

lemma py_replace_absent: "\<not> py_in old s \<Longrightarrow> py_replace s old new = s"
  by (induction s old new rule: py_replace.induct) auto

text \<open>
  Claim C6 says that after \<open>str_replace\<close> the content holds no occurrence of the old
  string when the new string does not contain it. The replacement is one pass from the
  left, and a new occurrence can form where a replacement meets its surroundings:
  replacing \<open>ab\<close> by \<open>b\<close> in \<open>aab\<close> reports 1 replacement and leaves \<open>ab\<close>.
\<close>

theorem str_replace_leaves_occurrence:
  "find_in_tiers st_aab (validate_path (ustr ''/memories/f''))
     = Some (Working, \<lparr>content = ustr ''aab'', tier = Working, access_count = 0, last_access = 0,
                      importance_score = 1 / 2, created_at = 0, size_bytes = 3\<rparr>)
   \<and> py_count (ustr ''aab'') (ustr ''ab'') = 1
   \<and> \<not> py_in (ustr ''ab'') (ustr ''b'')
   \<and> fst (str_replace st_aab 1 (ustr ''/memories/f'') (ustr ''ab'') (ustr ''b''))
       = ustr ''Replaced 1 occurrence(s) in /memories/f''
   \<and> map_of (memory_blocks (snd (str_replace st_aab 1 (ustr ''/memories/f'') (ustr ''ab'') (ustr ''b'')))
         Working) (ustr ''f'')
       = Some \<lparr>content = ustr ''ab'', tier = Working, access_count = 1, last_access = 1,
               importance_score = 1 / 2, created_at = 0, size_bytes = 2\<rparr>
   \<and> py_in (ustr ''ab'') (ustr ''ab'')
   \<and> py_count (ustr ''ab'') (ustr ''ab'') = 1"
  by (simp add: eval_more st_aab_def)

text \<open>
  Claim C6 as amended. On a key absent from all tiers \<open>str_replace\<close> returns the
  file-not-found error string and changes nothing; when the old string does not occur in
  the content it returns the string-not-found error string and changes nothing; otherwise
  the count \<open>k\<close> of non-overlapping occurrences found from the left is at least 1, the
  success string reports exactly \<open>k\<close>, and the block's content is the one-pass
  replacement, \<open>size_bytes\<close> its length. The replacement removes \<open>k\<close> copies of the old
  string and adds \<open>k\<close> copies of the new one; it holds no occurrence of the old string when
  that is a single character which is not in the new string.
\<close>

theorem str_replace_semantics:
  "(find_in_tiers st (validate_path p) = None \<longrightarrow>
      str_replace st now p old new = (ustr ''Error: File does not exist: '' @ p, st))
   \<and> (find_in_tiers st (validate_path p) = Some (t, b) \<longrightarrow>
        (\<not> py_in old (content b) \<longrightarrow>
           str_replace st now p old new = (ustr ''Error: String not found in file'', st))
        \<and> (py_in old (content b) \<longrightarrow>
             1 \<le> py_count (content b) old
             \<and> fst (str_replace st now p old new)
                 = ustr ''Replaced '' @ str_of_nat (py_count (content b) old)
                     @ ustr '' occurrence(s) in '' @ p
             \<and> (\<exists>t' b'. map_of (memory_blocks (snd (str_replace st now p old new)) t') (validate_path p)
                          = Some b'
                   \<and> content b' = py_replace (content b) old new
                   \<and> size_bytes b' = length (py_replace (content b) old new))))
   \<and> length (py_replace s old new) + py_count s old * length old
       = length s + py_count s old * length new
   \<and> (c \<notin> set new \<longrightarrow> \<not> py_in [c] (py_replace s [c] new))"
proof -
  have absent: "find_in_tiers st (validate_path p) = None \<Longrightarrow>
      str_replace st now p old new = (ustr ''Error: File does not exist: '' @ p, st)"
    by (simp add: str_replace_def Let_def)
  have missing: "find_in_tiers st (validate_path p) = Some (t, b) \<Longrightarrow> \<not> py_in old (content b) \<Longrightarrow>
      str_replace st now p old new = (ustr ''Error: String not found in file'', st)"
    by (simp add: str_replace_def Let_def)
  have msg: "find_in_tiers st (validate_path p) = Some (t, b) \<Longrightarrow> py_in old (content b) \<Longrightarrow>
      fst (str_replace st now p old new)
        = ustr ''Replaced '' @ str_of_nat (py_count (content b) old) @ ustr '' occurrence(s) in '' @ p"
    by (simp add: str_replace_def Let_def)
  have blk: "\<exists>t' b'. map_of (memory_blocks (snd (str_replace st now p old new)) t') (validate_path p)
                          = Some b'
                   \<and> content b' = py_replace (content b) old new
                   \<and> size_bytes b' = length (py_replace (content b) old new)"
    if f: "find_in_tiers st (validate_path p) = Some (t, b)" and i: "py_in old (content b)"
  proof -
    define ntext where "ntext = py_replace (content b) old new"
    define b1 where "b1 = update_access now (b\<lparr>content := ntext, size_bytes := length ntext\<rparr>)"
    define st1 where "st1 = set_block st t (validate_path p) b1"
    define nt where "nt = determine_tier st1 now (validate_path p) (content b1)"
    define st2 where "st2 = (if nt \<noteq> t then move_between_tiers st1 (validate_path p) t nt else st1)"
    have s: "snd (str_replace st now p old new) = st2"
      using f i by (simp add: str_replace_def Let_def st2_def nt_def st1_def b1_def ntext_def)
    have "map_of (memory_blocks st2 nt) (validate_path p) = Some (if nt \<noteq> t then b1\<lparr>tier := nt\<rparr> else b1)"
      by (rule replaced_block_located [OF st1_def st2_def])
    moreover have "content (if nt \<noteq> t then b1\<lparr>tier := nt\<rparr> else b1) = ntext"
      "size_bytes (if nt \<noteq> t then b1\<lparr>tier := nt\<rparr> else b1) = length ntext"
      by (simp_all add: b1_def update_access_def)
    ultimately show ?thesis unfolding s ntext_def by blast
  qed
  have cnt: "py_in old (content b) \<Longrightarrow> 1 \<le> py_count (content b) old"
    by (simp add: py_in_iff_count)
  have single: "c \<notin> set new \<Longrightarrow> \<not> py_in [c] (py_replace s [c] new)"
    using set_py_replace_single [of s c new] by (auto simp add: py_in_single)
  from absent missing msg blk cnt single length_py_replace [of s old new]
  show ?thesis by blast
qed

theorem str_replace_semantics_witness:
  "find_in_tiers fresh_engine (validate_path (ustr ''/memories/f'')) = None
   \<and> str_replace fresh_engine 1 (ustr ''/memories/f'') (ustr ''a'') (ustr ''c'')
       = (ustr ''Error: File does not exist: '' @ ustr ''/memories/f'', fresh_engine)
   \<and> find_in_tiers st_aab (validate_path (ustr ''/memories/f''))
     = Some (Working, \<lparr>content = ustr ''aab'', tier = Working, access_count = 0, last_access = 0,
                      importance_score = 1 / 2, created_at = 0, size_bytes = 3\<rparr>)
   \<and> \<not> py_in (ustr ''z'') (ustr ''aab'')
   \<and> str_replace st_aab 1 (ustr ''/memories/f'') (ustr ''z'') (ustr ''c'')
       = (ustr ''Error: String not found in file'', st_aab)
   \<and> py_in (ustr ''a'') (ustr ''aab'')
   \<and> fst (str_replace st_aab 1 (ustr ''/memories/f'') (ustr ''a'') (ustr ''c''))
       = ustr ''Replaced '' @ str_of_nat (py_count (ustr ''aab'') (ustr ''a''))
           @ ustr '' occurrence(s) in '' @ ustr ''/memories/f''
   \<and> py_count (ustr ''aab'') (ustr ''a'') = 2
   \<and> map_of (memory_blocks (snd (str_replace st_aab 1 (ustr ''/memories/f'') (ustr ''a'') (ustr ''c'')))
         Working) (ustr ''f'')
       = Some \<lparr>content = ustr ''ccb'', tier = Working, access_count = 1, last_access = 1,
               importance_score = 1 / 2, created_at = 0, size_bytes = 3\<rparr>
   \<and> 97 \<notin> set (ustr ''c'')
   \<and> \<not> py_in [97] (py_replace (ustr ''aab'') [97] (ustr ''c''))"
proof -
  have h1: "find_in_tiers fresh_engine (validate_path (ustr ''/memories/f'')) = None"
    by (simp add: eval_more)
  have h2: "find_in_tiers st_aab (validate_path (ustr ''/memories/f''))
     = Some (Working, \<lparr>content = ustr ''aab'', tier = Working, access_count = 0, last_access = 0,
                      importance_score = 1 / 2, created_at = 0, size_bytes = 3\<rparr>)"
    by (simp add: eval_more st_aab_def)
  have h3: "\<not> py_in (ustr ''z'') (ustr ''aab'')" "py_in (ustr ''a'') (ustr ''aab'')"
    "py_count (ustr ''aab'') (ustr ''a'') = 2" "97 \<notin> set (ustr ''c'')"
    by simp_all
  have e: "map_of (memory_blocks (snd (str_replace st_aab 1 (ustr ''/memories/f'') (ustr ''a'') (ustr ''c'')))
         Working) (ustr ''f'')
       = Some \<lparr>content = ustr ''ccb'', tier = Working, access_count = 1, last_access = 1,
               importance_score = 1 / 2, created_at = 0, size_bytes = 3\<rparr>"
    by (simp add: eval_more st_aab_def)
  note w1 = str_replace_semantics [where st = fresh_engine and p = "ustr ''/memories/f''" and now = 1
      and old = "ustr ''a''" and new = "ustr ''c''"]
  note w2 = str_replace_semantics [where st = st_aab and p = "ustr ''/memories/f''" and now = 1
      and old = "ustr ''z''" and new = "ustr ''c''" and t = Working
      and b = "\<lparr>content = ustr ''aab'', tier = Working, access_count = 0, last_access = 0,
                      importance_score = 1 / 2, created_at = 0, size_bytes = 3\<rparr>"]
  note w3 = str_replace_semantics [where st = st_aab and p = "ustr ''/memories/f''" and now = 1
      and old = "ustr ''a''" and new = "ustr ''c''" and t = Working
      and b = "\<lparr>content = ustr ''aab'', tier = Working, access_count = 0, last_access = 0,
                      importance_score = 1 / 2, created_at = 0, size_bytes = 3\<rparr>"
      and c = 97 and s = "ustr ''aab''"]
  have c1: "str_replace fresh_engine 1 (ustr ''/memories/f'') (ustr ''a'') (ustr ''c'')
       = (ustr ''Error: File does not exist: '' @ ustr ''/memories/f'', fresh_engine)"
    using w1 h1 by blast
  have c2: "str_replace st_aab 1 (ustr ''/memories/f'') (ustr ''z'') (ustr ''c'')
       = (ustr ''Error: String not found in file'', st_aab)"
    using w2 h2 h3(1) by simp
  have c3: "fst (str_replace st_aab 1 (ustr ''/memories/f'') (ustr ''a'') (ustr ''c''))
       = ustr ''Replaced '' @ str_of_nat (py_count (ustr ''aab'') (ustr ''a''))
           @ ustr '' occurrence(s) in '' @ ustr ''/memories/f''"
    using w3 h2 h3(2) by simp
  have c4: "\<not> py_in [97] (py_replace (ustr ''aab'') [97] (ustr ''c''))"
    using w3 h3(4) by blast
  show ?thesis
    using h1 h2 h3 e c1 c2 c3 c4 by blast
qed

subsection \<open>Moves and passes\<close>

lemma memory_blocks_move_between_tiers:
  "memory_blocks (move_between_tiers st k f g) t =
     (case map_of (memory_blocks st f) k of
        None \<Rightarrow> memory_blocks st t
      | Some b \<Rightarrow>
          if t = g then AList.update k (b\<lparr>tier := g\<rparr>)
                          (if g = f then AList.delete k (memory_blocks st f) else memory_blocks st g)
          else if t = f then AList.delete k (memory_blocks st f)
          else memory_blocks st t)"
  by (simp add: move_between_tiers_def set_block_def del_block_def split: option.splits)

lemma distinct_move_between_tiers:
  "distinct (map fst (memory_blocks st t)) \<Longrightarrow>
   distinct (map fst (memory_blocks (move_between_tiers st k f g) t))"
  by (auto simp add: memory_blocks_move_between_tiers split: option.splits
      intro: distinct_update distinct_delete)

lemma keys_unique_move_between_tiers:
  "keys_unique st \<Longrightarrow> keys_unique (move_between_tiers st k f g)"
  by (simp add: keys_unique_def distinct_move_between_tiers)

lemma keys_unique_promote_pass: "keys_unique st \<Longrightarrow> keys_unique (promote_pass now items st)"
  by (induction now items st rule: promote_pass.induct)
     (simp_all add: keys_unique_move_between_tiers)

lemma keys_unique_demote_pass: "keys_unique st \<Longrightarrow> keys_unique (demote_pass now items st)"
  by (induction now items st rule: demote_pass.induct)
     (simp_all add: keys_unique_move_between_tiers)

lemma keys_unique_archive_pass: "keys_unique st \<Longrightarrow> keys_unique (archive_pass now items st)"
  by (induction now items st rule: archive_pass.induct)
     (simp_all add: keys_unique_move_between_tiers)

text \<open>A pass touches only the keys of its snapshot.\<close>

lemma promote_pass_other_key:
  "map_of items k = None \<Longrightarrow>
   map_of (memory_blocks (promote_pass now items st) t) k = map_of (memory_blocks st t) k"
  by (induction now items st rule: promote_pass.induct)
     (auto simp add: map_of_move_between_tiers split: option.splits if_splits)



text \<open>The passes never take a key out of a tier they do not move from.\<close>

lemma promote_pass_frame:
  "t \<noteq> Archival \<Longrightarrow> t \<noteq> Working \<Longrightarrow>
   memory_blocks (promote_pass now items st) t = memory_blocks st t"
  by (induction now items st rule: promote_pass.induct)
     (auto simp add: memory_blocks_move_between_tiers split: option.splits)

lemma demote_pass_frame:
  "t \<noteq> Archival \<Longrightarrow> t \<noteq> Working \<Longrightarrow>
   memory_blocks (demote_pass now items st) t = memory_blocks st t"
  by (induction now items st rule: demote_pass.induct)
     (auto simp add: memory_blocks_move_between_tiers split: option.splits)

lemma archive_pass_frame:
  "t \<noteq> Archival \<Longrightarrow> t \<noteq> Overflow \<Longrightarrow>
   memory_blocks (archive_pass now items st) t = memory_blocks st t"
  by (induction now items st rule: archive_pass.induct)
     (auto simp add: memory_blocks_move_between_tiers split: option.splits)

text \<open>
  The demotion pass over a snapshot that agrees with the working tier: what the working
  and the archival tier hold afterwards.
\<close>

lemma demote_pass_lookup:
  assumes "distinct (map fst items)"
    and "\<And>k b. (k, b) \<in> set items \<Longrightarrow> map_of (memory_blocks st Working) k = Some b"
  shows "map_of (memory_blocks (demote_pass now items st) Working) k =
           (case map_of items k of
              None \<Rightarrow> map_of (memory_blocks st Working) k
            | Some b \<Rightarrow> if now - last_access b > 600 then None else Some b)
         \<and> map_of (memory_blocks (demote_pass now items st) Archival) k =
           (case map_of items k of
              None \<Rightarrow> map_of (memory_blocks st Archival) k
            | Some b \<Rightarrow> if now - last_access b > 600 then Some (b\<lparr>tier := Archival\<rparr>)
                        else map_of (memory_blocks st Archival) k)"
  using assms
proof (induction items arbitrary: st)
  case Nil
  then show ?case by simp
next
  case (Cons item rest)
  obtain p blk where item: "item = (p, blk)" by (cases item)
  define st1 where "st1 = (if now - last_access blk > 600
                           then move_between_tiers st p Working Archival else st)"
  have here: "map_of (memory_blocks st Working) p = Some blk"
    using Cons.prems(2) [of p blk] item by simp
  have notin: "map_of rest p = None"
    using Cons.prems(1) item by (simp add: map_of_eq_None_iff)
  have d: "distinct (map fst rest)" using Cons.prems(1) by simp
  have agree: "map_of (memory_blocks st1 Working) k' = Some b'" if "(k', b') \<in> set rest" for k' b'
  proof -
    from that Cons.prems(1) item have "k' \<noteq> p" by force
    moreover have "map_of (memory_blocks st Working) k' = Some b'"
      using Cons.prems(2) [of k' b'] that by simp
    ultimately show ?thesis
      by (simp add: st1_def map_of_move_between_tiers split: option.splits)
  qed
  have step: "demote_pass now (item # rest) st = demote_pass now rest st1"
    by (simp add: item st1_def)
  note IH = Cons.IH [OF d agree]
  show ?case
  proof (cases "k = p")
    case True
    with IH notin here show ?thesis
      by (simp add: step item st1_def map_of_move_between_tiers)
  next
    case False
    with IH show ?thesis
      by (simp add: step item st1_def map_of_move_between_tiers split: option.splits)
  qed
qed

lemma archive_pass_lookup:
  assumes "distinct (map fst items)"
    and "\<And>k b. (k, b) \<in> set items \<Longrightarrow> map_of (memory_blocks st Archival) k = Some b"
  shows "map_of (memory_blocks (archive_pass now items st) Archival) k =
           (case map_of items k of
              None \<Rightarrow> map_of (memory_blocks st Archival) k
            | Some b \<Rightarrow> if now - last_access b > 3600 then None else Some b)
         \<and> map_of (memory_blocks (archive_pass now items st) Overflow) k =
           (case map_of items k of
              None \<Rightarrow> map_of (memory_blocks st Overflow) k
            | Some b \<Rightarrow> if now - last_access b > 3600 then Some (b\<lparr>tier := Overflow\<rparr>)
                        else map_of (memory_blocks st Overflow) k)"
  using assms
proof (induction items arbitrary: st)
  case Nil
  then show ?case by simp
next
  case (Cons item rest)
  obtain p blk where item: "item = (p, blk)" by (cases item)
  define st1 where "st1 = (if now - last_access blk > 3600
                           then move_between_tiers st p Archival Overflow else st)"
  have here: "map_of (memory_blocks st Archival) p = Some blk"
    using Cons.prems(2) [of p blk] item by simp
  have notin: "map_of rest p = None"
    using Cons.prems(1) item by (simp add: map_of_eq_None_iff)
  have d: "distinct (map fst rest)" using Cons.prems(1) by simp
  have agree: "map_of (memory_blocks st1 Archival) k' = Some b'" if "(k', b') \<in> set rest" for k' b'
  proof -
    from that Cons.prems(1) item have "k' \<noteq> p" by force
    moreover have "map_of (memory_blocks st Archival) k' = Some b'"
      using Cons.prems(2) [of k' b'] that by simp
    ultimately show ?thesis
      by (simp add: st1_def map_of_move_between_tiers split: option.splits)
  qed
  have step: "archive_pass now (item # rest) st = archive_pass now rest st1"
    by (simp add: item st1_def)
  note IH = Cons.IH [OF d agree]
  show ?case
  proof (cases "k = p")
    case True
    with IH notin here show ?thesis
      by (simp add: step item st1_def map_of_move_between_tiers)
  next
    case False
    with IH show ?thesis
      by (simp add: step item st1_def map_of_move_between_tiers split: option.splits)
  qed
qed


lemma map_of_distinct_agree:
  "distinct (map fst items) \<Longrightarrow> (k, b) \<in> set items \<Longrightarrow> map_of items k = Some b"
  by simp

subsection \<open>Demotion\<close>



text \<open>
  The whole run of the reorganizer on a block of the working tier whose key is not in the
  archival tier as well: the block stays when its last access is at most 600 seconds
  old, it ends in the archival tier when that is more than 600 and at most 3600 seconds
  old, and the archiving pass takes it on to the overflow tier when it is older.
\<close>

lemma reorganize_working_block:
  assumes u: "keys_unique st"
    and k: "map_of (memory_blocks st Working) k = Some b"
    and a: "map_of (memory_blocks st Archival) k = None"
  shows "map_of (memory_blocks (reorganize_memories now st) Working) k
           = (if 600 < now - last_access b then None else Some b)"
    and "map_of (memory_blocks (reorganize_memories now st) Archival) k
           = (if 600 < now - last_access b \<and> now - last_access b \<le> 3600
              then Some (b\<lparr>tier := Archival\<rparr>) else None)"
    and "3600 < now - last_access b \<Longrightarrow>
         map_of (memory_blocks (reorganize_memories now st) Overflow) k = Some (b\<lparr>tier := Overflow\<rparr>)"
proof -
  define st1 where "st1 = promote_pass now (memory_blocks st Archival) st"
  define st2 where "st2 = demote_pass now (memory_blocks st1 Working) st1"
  define st3 where "st3 = archive_pass now (memory_blocks st2 Archival) st2"
  have r: "reorganize_memories now st = st3"
    by (simp add: reorganize_memories_def Let_def st1_def st2_def st3_def)
  have u1: "keys_unique st1" unfolding st1_def by (rule keys_unique_promote_pass [OF u])
  have u2: "keys_unique st2" unfolding st2_def by (rule keys_unique_demote_pass [OF u1])
  have w1: "map_of (memory_blocks st1 Working) k = Some b"
    unfolding st1_def using promote_pass_other_key [OF a] k by simp
  have a1: "map_of (memory_blocks st1 Archival) k = None"
    unfolding st1_def using promote_pass_other_key [OF a] a by simp
  have d1: "distinct (map fst (memory_blocks st1 Working))"
    using u1 by (simp add: keys_unique_def)
  have l2: "map_of (memory_blocks st2 Working) k = (if now - last_access b > 600 then None else Some b)
        \<and> map_of (memory_blocks st2 Archival) k =
           (if now - last_access b > 600 then Some (b\<lparr>tier := Archival\<rparr>) else None)"
    unfolding st2_def
    using demote_pass_lookup [OF d1 map_of_distinct_agree [OF d1], where now = now and k = k] w1 a1 by simp
  have d2: "distinct (map fst (memory_blocks st2 Archival))"
    using u2 by (simp add: keys_unique_def)
  have l3: "map_of (memory_blocks st3 Archival) k =
           (case map_of (memory_blocks st2 Archival) k of
              None \<Rightarrow> map_of (memory_blocks st2 Archival) k
            | Some b \<Rightarrow> if now - last_access b > 3600 then None else Some b)
         \<and> map_of (memory_blocks st3 Overflow) k =
           (case map_of (memory_blocks st2 Archival) k of
              None \<Rightarrow> map_of (memory_blocks st2 Overflow) k
            | Some b \<Rightarrow> if now - last_access b > 3600 then Some (b\<lparr>tier := Overflow\<rparr>)
                        else map_of (memory_blocks st2 Overflow) k)"
    unfolding st3_def
    using archive_pass_lookup [OF d2 map_of_distinct_agree [OF d2], where now = now and k = k] by simp
  have w3: "memory_blocks st3 Working = memory_blocks st2 Working"
    unfolding st3_def by (rule archive_pass_frame) simp_all
  show "map_of (memory_blocks (reorganize_memories now st) Working) k
           = (if 600 < now - last_access b then None else Some b)"
    using l2 by (simp add: r w3)
  show "map_of (memory_blocks (reorganize_memories now st) Archival) k
           = (if 600 < now - last_access b \<and> now - last_access b \<le> 3600
              then Some (b\<lparr>tier := Archival\<rparr>) else None)"
    using l2 l3 by (auto simp add: r)
  show "map_of (memory_blocks (reorganize_memories now st) Overflow) k = Some (b\<lparr>tier := Overflow\<rparr>)"
    if "3600 < now - last_access b"
    using l2 l3 that by (auto simp add: r)
qed

subsection \<open>The overflow tier\<close>



lemma find_in_tiers_None:
  "find_in_tiers st n = None \<longleftrightarrow>
     map_of (memory_blocks st Working) n = None
     \<and> map_of (memory_blocks st Archival) n = None
     \<and> map_of (memory_blocks st Overflow) n = None"
  by (auto simp add: find_in_tiers_def split: option.splits)

lemma find_in_tiers_Some:
  "find_in_tiers st n = Some (t, b) \<Longrightarrow> map_of (memory_blocks st t) n = Some b"
  by (auto simp add: find_in_tiers_def split: option.splits if_splits)



lemma only_in_overflow_cong:
  "(\<And>t. map_of (memory_blocks st' t) k = map_of (memory_blocks st t) k) \<Longrightarrow>
   only_in_overflow st' k = only_in_overflow st k"
  by (simp add: only_in_overflow_def)



lemma memory_blocks_view:
  "memory_blocks (snd (view st now p rng)) =
     (if p = ustr ''/memories'' \<or> p = [] then memory_blocks st
      else case find_in_tiers st (validate_path p) of
             None \<Rightarrow> memory_blocks st
           | Some (t, b) \<Rightarrow> memory_blocks (set_block st t (validate_path p) (update_access now b)))"
  by (simp add: view_def Let_def predict_next_access_def set_block_def
      split: option.splits list.splits)


lemma memory_blocks_delete_cmd:
  "memory_blocks (snd (delete_cmd st p)) =
     (case find_in_tiers st (validate_path p) of
        None \<Rightarrow> memory_blocks st
      | Some (t, b) \<Rightarrow> memory_blocks (del_block st t (validate_path p)))"
  by (simp add: delete_cmd_def Let_def split: option.splits)

lemma memory_blocks_rename:
  "memory_blocks (snd (rename st p q)) =
     (case find_in_tiers st (validate_path p) of
        None \<Rightarrow> memory_blocks st
      | Some (t, b) \<Rightarrow>
          if find_in_tiers st (validate_path q) \<noteq> None then memory_blocks st
          else memory_blocks (set_block (del_block st t (validate_path p)) t (validate_path q) b))"
  by (simp add: rename_def Let_def set_block_def del_block_def split: option.splits)




subsection \<open>Dispatcher\<close>

lemma handle_tool_call_cases:
  "handle_tool_call st now inp =
     (if falsy (command inp) then (Inr (ustr ''Error: No command specified''), st)
      else case handlers (the (command inp)) of
          None \<Rightarrow> (Inr (ustr ''Error: Unknown command '' @ [39] @ the (command inp) @ [39]), st)
        | Some handler \<Rightarrow>
            (case handler (st\<lparr>operation_counts := (operation_counts st)
                     (the (command inp) := operation_counts st (the (command inp)) + 1)\<rparr>) now inp of
               (Inr result, st2) \<Rightarrow> (Inr result, reorganize_if_needed now st2)
             | (Inl e, st2) \<Rightarrow> (Inr (ustr ''Error: '' @ exn_str e), st2)))"
  by (simp add: handle_tool_call_def Let_def split: option.splits)




subsection \<open>Tier exclusivity of the moves and of the other commands\<close>

text \<open>
  The moves keep tier exclusivity, and so does every command but \<open>create\<close> on a key that
  is already stored: only \<open>create\<close> can put a key into a second tier.
\<close>

lemma tier_exclusiveD:
  "tier_exclusive st \<Longrightarrow> map_of (memory_blocks st t) k = Some b \<Longrightarrow>
   map_of (memory_blocks st t') k = Some b' \<Longrightarrow> t = t'"
  unfolding tier_exclusive_def by blast

lemma tier_exclusiveI:
  assumes "\<And>k t t' b b'. map_of (memory_blocks st t) k = Some b \<Longrightarrow>
             map_of (memory_blocks st t') k = Some b' \<Longrightarrow> t = t'"
  shows "tier_exclusive st"
  unfolding tier_exclusive_def using assms by blast

lemma tier_exclusive_move_between_tiers:
  assumes "tier_exclusive st"
  shows "tier_exclusive (move_between_tiers st k f g)"
proof (cases "map_of (memory_blocks st f) k")
  case None
  with assms show ?thesis by (simp add: move_between_tiers_def)
next
  case (Some b)
  have only: "map_of (memory_blocks st t) k = None" if "t \<noteq> f" for t
  proof (cases "map_of (memory_blocks st t) k")
    case None
    then show ?thesis .
  next
    case (Some b')
    from tier_exclusiveD [OF assms Some \<open>map_of (memory_blocks st f) k = Some b\<close>] that
    show ?thesis by simp
  qed
  have at_k: "map_of (memory_blocks (move_between_tiers st k f g) t) k
                = (if t = g then Some (b\<lparr>tier := g\<rparr>) else None)" for t
    using Some only [of t] by (simp add: map_of_move_between_tiers)
  have other: "map_of (memory_blocks (move_between_tiers st k f g) t) k'
                = map_of (memory_blocks st t) k'" if "k' \<noteq> k" for t k'
    using Some that by (simp add: map_of_move_between_tiers)
  show ?thesis
  proof (rule tier_exclusiveI)
    fix k' t t' b1 b2
    assume a: "map_of (memory_blocks (move_between_tiers st k f g) t) k' = Some b1"
      and b: "map_of (memory_blocks (move_between_tiers st k f g) t') k' = Some b2"
    show "t = t'"
    proof (cases "k' = k")
      case True
      from a True have "t = g" by (simp add: at_k split: if_splits)
      moreover from b True have "t' = g" by (simp add: at_k split: if_splits)
      ultimately show ?thesis by simp
    next
      case False
      from a b show ?thesis
        unfolding other [OF False] by (rule tier_exclusiveD [OF assms])
    qed
  qed
qed


lemma tier_exclusive_cong:
  "memory_blocks st' = memory_blocks st \<Longrightarrow> tier_exclusive st' = tier_exclusive st"
  by (simp add: tier_exclusive_def)

lemma tier_exclusive_promote_pass:
  "tier_exclusive st \<Longrightarrow> tier_exclusive (promote_pass now items st)"
  by (induction now items st rule: promote_pass.induct)
     (simp_all add: tier_exclusive_move_between_tiers)

lemma tier_exclusive_demote_pass:
  "tier_exclusive st \<Longrightarrow> tier_exclusive (demote_pass now items st)"
  by (induction now items st rule: demote_pass.induct)
     (simp_all add: tier_exclusive_move_between_tiers)

lemma tier_exclusive_archive_pass:
  "tier_exclusive st \<Longrightarrow> tier_exclusive (archive_pass now items st)"
  by (induction now items st rule: archive_pass.induct)
     (simp_all add: tier_exclusive_move_between_tiers)

lemma tier_exclusive_reorganize_memories:
  "tier_exclusive st \<Longrightarrow> tier_exclusive (reorganize_memories now st)"
  by (simp add: reorganize_memories_def Let_def tier_exclusive_promote_pass
      tier_exclusive_demote_pass tier_exclusive_archive_pass)

lemma tier_exclusive_reorganize_if_needed:
  assumes "tier_exclusive st"
  shows "tier_exclusive (reorganize_if_needed now st)"
proof -
  define st1 where "st1 = st\<lparr>reorganize_counter := reorganize_counter st + 1\<rparr>"
  have 1: "tier_exclusive st1"
    using assms tier_exclusive_cong [of st1 st] by (simp add: st1_def)
  have 2: "tier_exclusive ((reorganize_memories now st1)\<lparr>reorganize_counter := 0\<rparr>)"
    using tier_exclusive_reorganize_memories [OF 1, of now]
      tier_exclusive_cong [of "(reorganize_memories now st1)\<lparr>reorganize_counter := 0\<rparr>"
        "reorganize_memories now st1"]
    by simp
  have "reorganize_if_needed now st
          = (if reorganize_counter st1 \<ge> reorganize_threshold
             then (reorganize_memories now st1)\<lparr>reorganize_counter := 0\<rparr> else st1)"
    by (simp add: reorganize_if_needed_def Let_def st1_def)
  with 1 2 show ?thesis by simp
qed

text \<open>Assigning to a key in the tier where the lookup has found it.\<close>

lemma tier_exclusive_set_found:
  assumes "tier_exclusive st" and "find_in_tiers st k = Some (t, b)"
  shows "tier_exclusive (set_block st t k b')"
proof (rule tier_exclusiveI)
  fix k' t1 t2 b1 b2
  assume a: "map_of (memory_blocks (set_block st t k b') t1) k' = Some b1"
    and b: "map_of (memory_blocks (set_block st t k b') t2) k' = Some b2"
  have here: "map_of (memory_blocks st t) k = Some b"
    by (rule find_in_tiers_Some [OF assms(2)])
  show "t1 = t2"
  proof (cases "k' = k")
    case True
    have "t1 = t"
    proof (rule ccontr)
      assume "t1 \<noteq> t"
      with a True have "map_of (memory_blocks st t1) k = Some b1" by (simp add: map_of_set_block)
      from tier_exclusiveD [OF assms(1) this here] \<open>t1 \<noteq> t\<close> show False by simp
    qed
    moreover have "t2 = t"
    proof (rule ccontr)
      assume "t2 \<noteq> t"
      with b True have "map_of (memory_blocks st t2) k = Some b2" by (simp add: map_of_set_block)
      from tier_exclusiveD [OF assms(1) this here] \<open>t2 \<noteq> t\<close> show False by simp
    qed
    ultimately show ?thesis by simp
  next
    case False
    with a b have "map_of (memory_blocks st t1) k' = Some b1" "map_of (memory_blocks st t2) k' = Some b2"
      by (simp_all add: map_of_set_block)
    then show ?thesis by (rule tier_exclusiveD [OF assms(1)])
  qed
qed

lemma find_in_tiers_None_all:
  "find_in_tiers st k = None \<Longrightarrow> map_of (memory_blocks st t) k = None"
  by (cases t) (simp_all add: find_in_tiers_None)

lemma tier_exclusive_set_absent:
  assumes "tier_exclusive st" and "find_in_tiers st k = None"
  shows "tier_exclusive (set_block st t k b')"
proof (rule tier_exclusiveI)
  fix k' t1 t2 b1 b2
  assume a: "map_of (memory_blocks (set_block st t k b') t1) k' = Some b1"
    and b: "map_of (memory_blocks (set_block st t k b') t2) k' = Some b2"
  show "t1 = t2"
  proof (cases "k' = k")
    case True
    from a True find_in_tiers_None_all [OF assms(2), of t1] have "t1 = t"
      by (simp add: map_of_set_block split: if_splits)
    moreover from b True find_in_tiers_None_all [OF assms(2), of t2] have "t2 = t"
      by (simp add: map_of_set_block split: if_splits)
    ultimately show ?thesis by simp
  next
    case False
    with a b have "map_of (memory_blocks st t1) k' = Some b1" "map_of (memory_blocks st t2) k' = Some b2"
      by (simp_all add: map_of_set_block)
    then show ?thesis by (rule tier_exclusiveD [OF assms(1)])
  qed
qed

lemma tier_exclusive_del_block:
  assumes "tier_exclusive st"
  shows "tier_exclusive (del_block st t k)"
proof (rule tier_exclusiveI)
  fix k' t1 t2 b1 b2
  assume "map_of (memory_blocks (del_block st t k) t1) k' = Some b1"
    and "map_of (memory_blocks (del_block st t k) t2) k' = Some b2"
  then have "map_of (memory_blocks st t1) k' = Some b1" "map_of (memory_blocks st t2) k' = Some b2"
    by (simp_all add: map_of_del_block split: if_splits)
  then show "t1 = t2" by (rule tier_exclusiveD [OF assms])
qed

lemma tier_exclusive_view:
  assumes "tier_exclusive st"
  shows "tier_exclusive (snd (view st now p rng))"
proof (cases "find_in_tiers st (validate_path p)")
  case None
  then have "memory_blocks (snd (view st now p rng)) = memory_blocks st"
    by (simp add: memory_blocks_view)
  from tier_exclusive_cong [OF this] assms show ?thesis by simp
next
  case (Some r)
  obtain t b where r: "r = (t, b)" by (cases r)
  have f: "find_in_tiers st (validate_path p) = Some (t, b)" using Some r by simp
  have 1: "tier_exclusive (set_block st t (validate_path p) (update_access now b))"
    by (rule tier_exclusive_set_found [OF assms f])
  show ?thesis
  proof (cases "p = ustr ''/memories'' \<or> p = []")
    case True
    then have "memory_blocks (snd (view st now p rng)) = memory_blocks st"
      by (simp add: memory_blocks_view)
    from tier_exclusive_cong [OF this] assms show ?thesis by simp
  next
    case False
    then have "memory_blocks (snd (view st now p rng))
                 = memory_blocks (set_block st t (validate_path p) (update_access now b))"
      by (simp add: memory_blocks_view f)
    from tier_exclusive_cong [OF this] 1 show ?thesis by simp
  qed
qed

lemma tier_exclusive_replaced:
  assumes "tier_exclusive st" and "find_in_tiers st k = Some (t, b)"
  shows "tier_exclusive (if nt \<noteq> t then move_between_tiers (set_block st t k b') k t nt
                         else set_block st t k b')"
  using tier_exclusive_set_found [OF assms, of b']
  by (simp add: tier_exclusive_move_between_tiers)

lemma tier_exclusive_str_replace:
  assumes "tier_exclusive st"
  shows "tier_exclusive (snd (str_replace st now p old new))"
proof (cases "find_in_tiers st (validate_path p)")
  case None
  with assms show ?thesis by (simp add: str_replace_def Let_def)
next
  case (Some r)
  obtain t b where r: "r = (t, b)" by (cases r)
  have f: "find_in_tiers st (validate_path p) = Some (t, b)" using Some r by simp
  show ?thesis
  proof (cases "py_in old (content b)")
    case False
    with assms f show ?thesis by (simp add: str_replace_def Let_def)
  next
    case True
    define b1 where "b1 = update_access now (b\<lparr>content := py_replace (content b) old new,
        size_bytes := length (py_replace (content b) old new)\<rparr>)"
    define nt where "nt = determine_tier (set_block st t (validate_path p) b1) now (validate_path p) (content b1)"
    have s: "snd (str_replace st now p old new)
            = (if nt \<noteq> t then move_between_tiers (set_block st t (validate_path p) b1) (validate_path p) t nt
               else set_block st t (validate_path p) b1)"
      unfolding nt_def b1_def by (simp add: str_replace_def Let_def f True)
    have "tier_exclusive (if nt \<noteq> t then move_between_tiers (set_block st t (validate_path p) b1) (validate_path p) t nt
               else set_block st t (validate_path p) b1)"
      by (rule tier_exclusive_replaced [OF assms f])
    then show ?thesis unfolding s .
  qed
qed

lemma tier_exclusive_create_absent:
  "tier_exclusive st \<Longrightarrow> find_in_tiers st (validate_path p) = None \<Longrightarrow>
   tier_exclusive (snd (create st now p body))"
  by (simp add: create_def Let_def tier_exclusive_set_absent)

lemma tier_exclusive_insert_cmd:
  assumes "tier_exclusive st"
  shows "tier_exclusive (snd (insert_cmd st now p line body))"
proof (cases "find_in_tiers st (validate_path p)")
  case None
  show ?thesis
  proof (cases "line = 0")
    case True
    with None tier_exclusive_create_absent [OF assms None, of now body] show ?thesis
      by (simp add: insert_cmd_def Let_def)
  next
    case False
    with None assms show ?thesis by (simp add: insert_cmd_def Let_def)
  qed
next
  case (Some r)
  obtain t b where r: "r = (t, b)" by (cases r)
  have f: "find_in_tiers st (validate_path p) = Some (t, b)" using Some r by simp
  show ?thesis
  proof (cases "line < 0")
    case True
    with assms f show ?thesis by (simp add: insert_cmd_def Let_def)
  next
    case False
    define ntext where "ntext = py_join [10]
        (list_insert (pad_lines (py_splitlines (content b)) (nat line)) (nat line) body)"
    define b1 where "b1 = update_access now (b\<lparr>content := ntext, size_bytes := length ntext\<rparr>)"
    define nt where "nt = determine_tier (set_block st t (validate_path p) b1) now (validate_path p) (content b1)"
    have s: "snd (insert_cmd st now p line body)
            = (if nt \<noteq> t then move_between_tiers (set_block st t (validate_path p) b1) (validate_path p) t nt
               else set_block st t (validate_path p) b1)"
      unfolding nt_def b1_def ntext_def by (simp add: insert_cmd_def Let_def f False)
    have "tier_exclusive (if nt \<noteq> t then move_between_tiers (set_block st t (validate_path p) b1) (validate_path p) t nt
               else set_block st t (validate_path p) b1)"
      by (rule tier_exclusive_replaced [OF assms f])
    then show ?thesis unfolding s .
  qed
qed

lemma tier_exclusive_delete_cmd:
  assumes "tier_exclusive st"
  shows "tier_exclusive (snd (delete_cmd st p))"
proof (cases "find_in_tiers st (validate_path p)")
  case None
  with assms show ?thesis by (simp add: delete_cmd_def Let_def)
next
  case (Some r)
  obtain t b where r: "r = (t, b)" by (cases r)
  have "memory_blocks (snd (delete_cmd st p)) = memory_blocks (del_block st t (validate_path p))"
    using Some r by (simp add: memory_blocks_delete_cmd)
  from tier_exclusive_cong [OF this] tier_exclusive_del_block [OF assms, of t "validate_path p"]
  show ?thesis by simp
qed

lemma tier_exclusive_rename:
  assumes "tier_exclusive st"
  shows "tier_exclusive (snd (rename st p q))"
proof (cases "find_in_tiers st (validate_path p)")
  case None
  with assms show ?thesis by (simp add: rename_def Let_def)
next
  case (Some r)
  obtain t b where r: "r = (t, b)" by (cases r)
  have f: "find_in_tiers st (validate_path p) = Some (t, b)" using Some r by simp
  show ?thesis
  proof (cases "find_in_tiers st (validate_path q)")
    case (Some r')
    with assms f show ?thesis by (simp add: rename_def Let_def)
  next
    case None
    have d: "tier_exclusive (del_block st t (validate_path p))"
      by (rule tier_exclusive_del_block [OF assms])
    have n: "find_in_tiers (del_block st t (validate_path p)) (validate_path q) = None"
      using find_in_tiers_None_all [OF None, of Working] find_in_tiers_None_all [OF None, of Archival]
        find_in_tiers_None_all [OF None, of Overflow]
      by (auto simp add: find_in_tiers_None map_of_del_block)
    have 1: "tier_exclusive (set_block (del_block st t (validate_path p)) t (validate_path q) b)"
      by (rule tier_exclusive_set_absent [OF d n])
    have "memory_blocks (snd (rename st p q))
            = memory_blocks (set_block (del_block st t (validate_path p)) t (validate_path q) b)"
      using None f by (simp add: memory_blocks_rename)
    from tier_exclusive_cong [OF this] 1 show ?thesis by simp
  qed
qed

lemma first_hit_cong:
  "memory_blocks st' = memory_blocks st \<Longrightarrow> first_hit st' k ts = first_hit st k ts"
  by (induction ts) (simp_all split: option.splits)

text \<open>
  A tool call with any command but \<open>create\<close> keeps tier exclusivity, and so does a
  \<open>create\<close> call for a key that is in no tier.
\<close>

lemma tier_exclusive_handle_tool_call:
  assumes x: "tier_exclusive st"
    and c: "command inp = Some (ustr ''create'') \<Longrightarrow>
            find_in_tiers st (validate_path (the (path inp))) = None"
  shows "tier_exclusive (snd (handle_tool_call st now inp))"
proof (cases "falsy (command inp)")
  case True
  with x show ?thesis by (simp add: handle_tool_call_cases)
next
  case nf: False
  define cmd where "cmd = the (command inp)"
  have cm: "command inp = Some cmd" using nf by (auto simp add: falsy_def cmd_def split: option.splits)
  define st1 where "st1 = st\<lparr>operation_counts := (operation_counts st)
                     (cmd := operation_counts st cmd + 1)\<rparr>"
  have m1: "memory_blocks st1 = memory_blocks st" and p1: "predicted_next st1 = predicted_next st"
    by (simp_all add: st1_def)
  have x1: "tier_exclusive st1" using tier_exclusive_cong [OF m1] x by simp
  have f1: "find_in_tiers st1 k = find_in_tiers st k" for k
    by (simp add: find_in_tiers_def p1 first_hit_cong [OF m1] del: first_hit.simps
        split: option.splits)
  show ?thesis
  proof (cases "handlers cmd")
    case None
    with x nf show ?thesis by (simp add: handle_tool_call_cases cmd_def)
  next
    case (Some h)
    have hx: "tier_exclusive (snd (h st1 now inp))"
    proof -
      consider "h = handle_view" | "h = handle_create" "cmd = ustr ''create''"
        | "h = handle_str_replace" | "h = handle_insert" | "h = handle_delete" | "h = handle_rename"
        using Some by (auto simp add: handlers_def split: if_splits)
      then show ?thesis
      proof cases
        case 1
        then show ?thesis by (simp add: handle_view_def tier_exclusive_view [OF x1])
      next
        case 2
        from c cm 2(2) have "find_in_tiers st1 (validate_path (the (path inp))) = None"
          by (simp add: f1)
        with 2 x1 show ?thesis
          by (simp add: handle_create_def returns_def tier_exclusive_create_absent)
      next
        case 3
        then show ?thesis
          by (simp add: handle_str_replace_def returns_def x1 tier_exclusive_str_replace [OF x1])
      next
        case 4
        then show ?thesis
          by (simp add: handle_insert_def returns_def x1 tier_exclusive_insert_cmd [OF x1])
      next
        case 5
        then show ?thesis
          by (simp add: handle_delete_def returns_def x1 tier_exclusive_delete_cmd [OF x1])
      next
        case 6
        then show ?thesis
          by (simp add: handle_rename_def returns_def x1 tier_exclusive_rename [OF x1])
      qed
    qed
    obtain res st2 where r: "h st1 now inp = (res, st2)" by (cases "h st1 now inp")
    with hx have x2: "tier_exclusive st2" by simp
    have "snd (handle_tool_call st now inp)
            = (case res of Inr result \<Rightarrow> reorganize_if_needed now st2 | Inl e \<Rightarrow> st2)"
      using nf Some r by (simp add: handle_tool_call_cases cmd_def st1_def split: sum.splits)
    with x2 tier_exclusive_reorganize_if_needed [OF x2, of now] show ?thesis
      by (simp split: sum.splits)
  qed
qed

lemma tier_exclusive_fresh_engine: "tier_exclusive fresh_engine"
  by (simp add: tier_exclusive_def fresh_engine_def init_engine_def load_memories_def)

lemma tier_exclusive_run_calls:
  "tier_exclusive st \<Longrightarrow>
   (\<And>now inp. (now, inp) \<in> set calls \<Longrightarrow> command inp \<noteq> Some (ustr ''create'')) \<Longrightarrow>
   tier_exclusive (run_calls st calls)"
proof (induction calls arbitrary: st)
  case Nil
  then show ?case by simp
next
  case (Cons call calls)
  obtain now inp where call: "call = (now, inp)" by (cases call)
  have "command inp \<noteq> Some (ustr ''create'')" using Cons.prems(2) [of now inp] call by simp
  then have x: "tier_exclusive (snd (handle_tool_call st now inp))"
    using tier_exclusive_handle_tool_call [OF Cons.prems(1), of inp now] by simp
  have rest: "command inp' \<noteq> Some (ustr ''create'')" if "(now', inp') \<in> set calls" for now' inp'
    using Cons.prems(2) [of now' inp'] that by simp
  have "tier_exclusive (run_calls (snd (handle_tool_call st now inp)) calls)"
    by (rule Cons.IH [OF x rest])
  then show ?case by (simp add: call)
qed

end
